theory Spec2Isabelle
  imports Complex_Main "HOL-Library.Word"
begin

unbundle bit_operations_syntax

section \<open>Shared data\<close>

type_synonym byte = "8 word"

text \<open>\<open>lorawan.EUI64\<close> is \<open>[8]byte\<close>; every value of this type built below has length 8.\<close>

type_synonym EUI64 = "byte list"

text \<open>
  Go \<open>error\<close> values. \<open>Wrap e msg\<close> is \<open>errors.Wrap(e, msg)\<close>; \<open>ErrorNew\<close> stands for
  an error of a library the bridge calls (JSON, file system, broker, shell).
\<close>

datatype error =
    ErrGatewayDoesNotExist
  | ErrInvalidProtocolVersion
  | ErrorNew string
  | Wrap error string
  | Errorf string
  | Panic string

text \<open>
  The message of an error, as \<open>err.Error()\<close> prints it. The texts of
  \<open>errGatewayDoesNotExist\<close> and \<open>ErrInvalidProtocolVersion\<close> are declared outside the
  sources at hand; the first is the spec's "gateway does not exist".
\<close>

fun Error_string :: "error \<Rightarrow> string" where
  "Error_string ErrGatewayDoesNotExist = ''gateway does not exist''"
| "Error_string ErrInvalidProtocolVersion = ''invalid protocol version''"
| "Error_string (ErrorNew s) = s"
| "Error_string (Wrap e msg) = msg @ '': '' @ Error_string e"
| "Error_string (Errorf s) = s"
| "Error_string (Panic s) = s"

text \<open>The innermost error of a chain of wraps (\<open>errors.Cause\<close>).\<close>

fun Cause :: "error \<Rightarrow> error" where
  "Cause (Wrap e msg) = Cause e"
| "Cause e = e"

text \<open>
  \<open>copy(gatewayID[:], bs)\<close> into a zeroed \<open>[8]byte\<close>: the first 8 bytes of \<open>bs\<close>, padded
  with zeros when \<open>bs\<close> is shorter.
\<close>

definition copy_EUI64 :: "byte list \<Rightarrow> EUI64" where
  "copy_EUI64 bs = take 8 bs @ replicate (8 - length bs) 0"

record UDPAddr =
  IP :: "byte list"
  Port :: nat

record udpPacket =
  addr :: UDPAddr
  data :: "byte list"

record pfConfiguration =
  gatewayID :: EUI64
  baseFile :: string
  outputFile :: string
  restartCommand :: string
  currentVersion :: string

text \<open>The registry entry of the UDP backend (struct \<open>gateway\<close>); times are Unix nanoseconds.\<close>

record gateway =
  gw_addr :: UDPAddr
  lastSeen :: nat
  protocolVersion :: byte

subsection \<open>The protobuf messages, with the fields the bridge reads or writes\<close>

record GatewayStats =
  GatewayId :: "byte list"
  Ip :: string
  Time :: string
  Location :: "(real \<times> real \<times> real) option"
  ConfigVersion :: string
  RxPacketsReceived :: "32 word"
  RxPacketsReceivedOk :: "32 word"
  TxPacketsReceived :: "32 word"
  TxPacketsEmitted :: "32 word"
  MetaData :: "string \<rightharpoonup> string"

text \<open>The zero value of \<open>gw.GatewayStats\<close>.\<close>

definition GatewayStats_zero :: GatewayStats where
  "GatewayStats_zero =
     \<lparr>GatewayId = [], Ip = [], Time = [], Location = None, ConfigVersion = [],
      RxPacketsReceived = 0, RxPacketsReceivedOk = 0, TxPacketsReceived = 0,
      TxPacketsEmitted = 0, MetaData = Map.empty\<rparr>"

record DownlinkTXAck =
  ack_GatewayId :: "byte list"
  ack_Token :: "32 word"
  ack_Error :: string

record DownlinkTXInfo =
  tx_GatewayId :: "byte list"
  tx_Frequency :: "32 word"
  tx_Power :: "32 word"

record DownlinkFrame =
  PhyPayload :: "byte list"
  TxInfo :: "DownlinkTXInfo option"
  Token :: "32 word"

record UplinkFrame =
  up_PhyPayload :: "byte list"
  rx_GatewayId :: "byte list"
  rx_Ip :: string
  Carrier :: "byte list"

record GatewayConfiguration =
  cfg_GatewayId :: "byte list"
  Version :: string
  Channels :: "32 word list"

section \<open>The packet codec of the UDP packet-forwarder protocol\<close>

text \<open>
  Modelled from the spec: package \<open>packets\<close> (the binary and JSON codec) is not among the
  sources. The spec gives the wire format: a 4-byte prefix
  \<open>[protocol_version, random_token_hi, random_token_lo, packet_type]\<close>, protocol versions 1
  and 2, the packet types below, and an 8-byte gateway MAC right after the prefix.
\<close>

type_synonym PacketType = byte

definition PushData :: PacketType where "PushData = 0"
definition PushACK :: PacketType where "PushACK = 1"
definition PullData :: PacketType where "PullData = 2"
definition PullResp :: PacketType where "PullResp = 3"
definition PullACK :: PacketType where "PullACK = 4"
definition TXACK :: PacketType where "TXACK = 5"

text \<open>Modelled from the spec: the codec supports protocol versions 1 and 2.\<close>

definition protocolSupported :: "byte \<Rightarrow> bool" where
  "protocolSupported v = (v = 1 \<or> v = 2)"

text \<open>Modelled from the spec: \<open>packets.GetPacketType\<close>, the fourth byte of a supported frame.\<close>

definition GetPacketType :: "byte list \<Rightarrow> error + PacketType" where
  "GetPacketType d =
     (if length d < 4 then Inl (ErrorNew ''at least 4 bytes of data are expected'')
      else if \<not> protocolSupported (d ! 0) then Inl ErrInvalidProtocolVersion
      else Inr (d ! 3))"

text \<open>
  Modelled from the spec: the 16-bit random token of the prefix, high byte first
  (\<open>random_token_hi\<close>, \<open>random_token_lo\<close>).
\<close>

definition token_of :: "byte \<Rightarrow> byte \<Rightarrow> 16 word" where
  "token_of hi lo = push_bit 8 (ucast hi) OR ucast lo"

definition token_hi :: "16 word \<Rightarrow> byte" where
  "token_hi t = ucast (drop_bit 8 t)"

definition token_lo :: "16 word \<Rightarrow> byte" where
  "token_lo t = ucast t"

text \<open>The prefix common to all packets; \<open>PUSH_ACK\<close> and \<open>PULL_ACK\<close> are nothing more.\<close>

record PullACKPacket =
  ProtocolVersion :: byte
  RandomToken :: "16 word"

type_synonym PushACKPacket = PullACKPacket

record PullDataPacket = PullACKPacket +
  GatewayMAC :: EUI64

text \<open>Modelled from the spec: the 4-byte prefix of a frame.\<close>

definition marshal_prefix :: "byte \<Rightarrow> 16 word \<Rightarrow> PacketType \<Rightarrow> byte list" where
  "marshal_prefix v t pt = [v, token_hi t, token_lo t, pt]"

text \<open>Modelled from the spec: \<open>PullACKPacket.MarshalBinary\<close>, the bare prefix with type \<open>0x04\<close>.\<close>

definition PullACKPacket_MarshalBinary :: "PullACKPacket \<Rightarrow> error + byte list" where
  "PullACKPacket_MarshalBinary p =
     Inr (marshal_prefix (ProtocolVersion p) (RandomToken p) PullACK)"

text \<open>Modelled from the spec: \<open>PushACKPacket.MarshalBinary\<close>, the bare prefix with type \<open>0x01\<close>.\<close>

definition PushACKPacket_MarshalBinary :: "PushACKPacket \<Rightarrow> error + byte list" where
  "PushACKPacket_MarshalBinary p =
     Inr (marshal_prefix (ProtocolVersion p) (RandomToken p) PushACK)"

text \<open>
  Modelled from the spec: \<open>PullDataPacket.UnmarshalBinary\<close>. A \<open>PULL_DATA\<close> frame is the
  prefix and the gateway MAC, 12 bytes.
\<close>

definition PullDataPacket_UnmarshalBinary :: "byte list \<Rightarrow> error + PullDataPacket" where
  "PullDataPacket_UnmarshalBinary d =
     (if length d \<noteq> 12 then Inl (ErrorNew ''12 bytes of data are expected'')
      else if d ! 3 \<noteq> PullData then Inl (ErrorNew ''identifier mismatch (PULL_DATA expected)'')
      else if \<not> protocolSupported (d ! 0) then Inl ErrInvalidProtocolVersion
      else Inr \<lparr>ProtocolVersion = d ! 0, RandomToken = token_of (d ! 1) (d ! 2),
                GatewayMAC = take 8 (drop 4 d)\<rparr>)"

subsection \<open>The JSON payloads\<close>

text \<open>
  Modelled from the spec: the \<open>stat\<close> record of a \<open>PUSH_DATA\<close> payload carries the
  counters (rx received, rx valid CRC, tx received, tx emitted), an RFC-3339 time and an
  optional position; an \<open>rxpk\<close> record carries the fields of one received frame.
\<close>

record Stat =
  stat_Time :: string
  stat_Position :: "(real \<times> real \<times> real) option"
  RXNb :: "32 word"
  RXOK :: "32 word"
  DWNb :: "32 word"
  TXNb :: "32 word"

record RXPK =
  rxpk_Tmst :: "32 word"
  rxpk_Time :: "string option"
  rxpk_Freq :: real
  rxpk_Stat :: int
  rxpk_Modu :: string
  rxpk_DatR :: string
  rxpk_CodR :: string
  rxpk_RSSI :: int
  rxpk_LSNR :: real
  rxpk_Data :: string

record PushDataPayload =
  pl_RXPK :: "RXPK list"
  pl_Stat :: "Stat option"

record PushDataPacket = PullDataPacket +
  Payload :: PushDataPayload

record TXPKACK =
  Error :: string

record TXACKPayload =
  TXPKACK :: TXPKACK

record TXACKPacket = PullDataPacket +
  txack_Payload :: "TXACKPayload option"

record TXPK =
  txpk_Imme :: bool
  txpk_Tmst :: "32 word option"
  txpk_Freq :: real
  txpk_Powe :: byte
  txpk_Modu :: string
  txpk_DatR :: string
  txpk_CodR :: string
  txpk_IPol :: bool
  txpk_Data :: string

record PullRespPacket = PullACKPacket +
  resp_Payload :: TXPK

text \<open>
  What the handlers take from outside the repository: the JSON library, and the
  conversions of package \<open>packets\<close> between JSON records and protobuf frames (band-plan
  arithmetic, base-64, floating point), which this development does not look into.
\<close>

record codec =
  json_PushDataPayload :: "byte list \<Rightarrow> error + PushDataPayload"
  json_TXACKPayload :: "byte list \<Rightarrow> error + TXACKPayload"
  GetUplinkFrames :: "bool \<Rightarrow> bool \<Rightarrow> PushDataPacket \<Rightarrow> error + UplinkFrame list"
  txpk_of_frame :: "DownlinkFrame \<Rightarrow> error + TXPK"
  json_Marshal_TXPK :: "TXPK \<Rightarrow> error + byte list"

text \<open>
  Modelled from the spec: \<open>PushDataPacket.UnmarshalBinary\<close>. The prefix, the MAC, then
  the JSON payload.
\<close>

definition PushDataPacket_UnmarshalBinary :: "codec \<Rightarrow> byte list \<Rightarrow> error + PushDataPacket" where
  "PushDataPacket_UnmarshalBinary c d =
     (if length d < 12 then Inl (ErrorNew ''at least 12 bytes are expected'')
      else if d ! 3 \<noteq> PushData then Inl (ErrorNew ''identifier mismatch (PUSH_DATA expected)'')
      else if \<not> protocolSupported (d ! 0) then Inl ErrInvalidProtocolVersion
      else (case json_PushDataPayload c (drop 12 d) of
              Inl e \<Rightarrow> Inl e
            | Inr pl \<Rightarrow> Inr \<lparr>ProtocolVersion = d ! 0, RandomToken = token_of (d ! 1) (d ! 2),
                             GatewayMAC = take 8 (drop 4 d), Payload = pl\<rparr>))"

text \<open>
  Modelled from the spec: \<open>TXACKPacket.UnmarshalBinary\<close>. The prefix, the MAC, and an
  optional JSON body.
\<close>

definition TXACKPacket_UnmarshalBinary :: "codec \<Rightarrow> byte list \<Rightarrow> error + TXACKPacket" where
  "TXACKPacket_UnmarshalBinary c d =
     (if length d < 12 then Inl (ErrorNew ''at least 12 bytes of data are expected'')
      else if d ! 3 \<noteq> TXACK then Inl (ErrorNew ''identifier mismatch (TXACK expected)'')
      else if \<not> protocolSupported (d ! 0) then Inl ErrInvalidProtocolVersion
      else if drop 12 d = [] then
        Inr \<lparr>ProtocolVersion = d ! 0, RandomToken = token_of (d ! 1) (d ! 2),
             GatewayMAC = take 8 (drop 4 d), txack_Payload = None\<rparr>
      else (case json_TXACKPayload c (drop 12 d) of
              Inl e \<Rightarrow> Inl e
            | Inr pl \<Rightarrow> Inr \<lparr>ProtocolVersion = d ! 0, RandomToken = token_of (d ! 1) (d ! 2),
                             GatewayMAC = take 8 (drop 4 d), txack_Payload = Some pl\<rparr>))"

text \<open>
  Modelled from the spec: \<open>PushDataPacket.GetGatewayStats\<close>. No \<open>stat\<close> object gives no
  statistics; otherwise the counters, the time and the position are copied and the gateway
  id is the packet's MAC. The remaining fields keep their zero values.
\<close>

definition GetGatewayStats :: "PushDataPacket \<Rightarrow> error + GatewayStats option" where
  "GetGatewayStats p =
     (case pl_Stat (Payload p) of
        None \<Rightarrow> Inr None
      | Some st \<Rightarrow>
          Inr (Some (GatewayStats_zero
            \<lparr>GatewayId := GatewayMAC p, Time := stat_Time st, Location := stat_Position st,
             RxPacketsReceived := RXNb st, RxPacketsReceivedOk := RXOK st,
             TxPacketsReceived := DWNb st, TxPacketsEmitted := TXNb st\<rparr>)))"

text \<open>
  Modelled from the spec: \<open>packets.GetPullRespPacket\<close>. The packet carries the given
  protocol version and random token and the \<open>txpk\<close> record of the frame.
\<close>

definition GetPullRespPacket ::
    "codec \<Rightarrow> byte \<Rightarrow> 16 word \<Rightarrow> DownlinkFrame \<Rightarrow> error + PullRespPacket" where
  "GetPullRespPacket c v t frame =
     (case txpk_of_frame c frame of
        Inl e \<Rightarrow> Inl e
      | Inr pk \<Rightarrow> Inr \<lparr>ProtocolVersion = v, RandomToken = t, resp_Payload = pk\<rparr>)"

text \<open>
  Modelled from the spec: \<open>PullRespPacket.MarshalBinary\<close>. On the wire the packet is the
  prefix with type \<open>0x03\<close> followed by the JSON of the \<open>txpk\<close> record.
\<close>

definition PullRespPacket_MarshalBinary :: "codec \<Rightarrow> PullRespPacket \<Rightarrow> error + byte list" where
  "PullRespPacket_MarshalBinary c p =
     (case json_Marshal_TXPK c (resp_Payload p) of
        Inl e \<Rightarrow> Inl e
      | Inr js \<Rightarrow> Inr (marshal_prefix (ProtocolVersion p) (RandomToken p) PullResp @ js))"

section \<open>The UDP backend\<close>

text \<open>
  A send on one of the backend's channels. The channels are unbuffered; the model keeps,
  in order, what has been sent on them.
\<close>

datatype chan_send =
    UdpSendChan udpPacket
  | NotifyMacChan GatewayStats
  | GatewayStatsChan GatewayStats
  | UplinkFrameChan UplinkFrame
  | DownlinkTXAckChan DownlinkTXAck
  | ConnectChan EUI64
  | DisconnectChan EUI64

record Backend =
  locked :: bool
  closed :: bool
  udpSendChan_closed :: bool
  gateways :: "EUI64 \<rightharpoonup> gateway"
  fakeRxTime :: bool
  configurations :: "pfConfiguration list"
  skipCRCCheck :: bool
  sent :: "chan_send list"

text \<open>
  \<open>locked\<close> is the write lock of the embedded \<open>sync.RWMutex\<close>, as it stands between
  calls. A call that asks for the lock while it is held waits for ever; such a call has
  no result, which is \<open>None\<close> below.
\<close>

text \<open>What a handler reads from the system: the clock, package \<open>net\<close>, the tracer.\<close>

record sys =
  now :: nat
  IP_IsLoopback :: "byte list \<Rightarrow> bool"
  IP_String :: "byte list \<Rightarrow> string"
  getOutboundIP :: "error + byte list"
  carrier :: "byte list"

definition send :: "chan_send \<Rightarrow> Backend \<Rightarrow> Backend" where
  "send x b = b\<lparr>sent := sent b @ [x]\<rparr>"

text \<open>
  Modelled from the spec: \<open>gateways.get\<close> of the gateway registry, which is not among the
  sources. It fails with "gateway does not exist" for an absent id.
\<close>

definition gateways_get :: "Backend \<Rightarrow> EUI64 \<Rightarrow> error + gateway" where
  "gateways_get b mac =
     (case gateways b mac of None \<Rightarrow> Inl ErrGatewayDoesNotExist | Some g \<Rightarrow> Inr g)"

text \<open>
  Modelled from the spec: \<open>gateways.set\<close> of the gateway registry. It stores the entry and
  emits a connect event exactly when the id was absent; the spec names no failure.
\<close>

definition gateways_set :: "EUI64 \<Rightarrow> gateway \<Rightarrow> Backend \<Rightarrow> error option \<times> Backend" where
  "gateways_set mac g b =
     (let b1 = (case gateways b mac of None \<Rightarrow> send (ConnectChan mac) b | Some _ \<Rightarrow> b)
      in (None, b1\<lparr>gateways := (gateways b1)(mac \<mapsto> g)\<rparr>))"

text \<open>
  \<open>Close\<close> takes the write lock and sets the flag. When closing the socket fails it
  returns at once, and there is no unlock on that path: the lock stays held. Otherwise it
  closes the outbound channel and unlocks.
\<close>

definition Close :: "error option \<Rightarrow> Backend \<Rightarrow> (error option \<times> Backend) option" where
  "Close conn_Close b =
     (if locked b then None
      else (let b1 = b\<lparr>locked := True, closed := True\<rparr>
            in case conn_Close of
                 Some e \<Rightarrow> Some (Some (Wrap e ''close udp listener error''), b1)
               | None \<Rightarrow> Some (None, b1\<lparr>udpSendChan_closed := True, locked := False\<rparr>)))"

definition SendDownlinkFrame :: "codec \<Rightarrow> Backend \<Rightarrow> DownlinkFrame \<Rightarrow> error option \<times> Backend" where
  "SendDownlinkFrame c b frame =
     (case TxInfo frame of
        None \<Rightarrow> (Some (Panic ''invalid memory address or nil pointer dereference''), b)
      | Some ti \<Rightarrow>
         (case gateways_get b (copy_EUI64 (tx_GatewayId ti)) of
            Inl e \<Rightarrow> (Some (Wrap e ''get gateway error''), b)
          | Inr g \<Rightarrow>
             (case GetPullRespPacket c (protocolVersion g) (ucast (Token frame)) frame of
                Inl e \<Rightarrow> (Some (Wrap e ''get PullRespPacket error''), b)
              | Inr pullResp \<Rightarrow>
                 (case PullRespPacket_MarshalBinary c pullResp of
                    Inl e \<Rightarrow>
                      (Some (Wrap e ''backend/semtechudp: marshal PullRespPacket error''), b)
                  | Inr bytes \<Rightarrow>
                      (None, send (UdpSendChan \<lparr>addr = gw_addr g, data = bytes\<rparr>) b)))))"

text \<open>
  \<open>sendPackets\<close>, the writer: what it takes from the outbound channel, and the datagrams
  it hands to the socket (those whose packet type reads).
\<close>

fun udp_sends :: "chan_send list \<Rightarrow> udpPacket list" where
  "udp_sends [] = []"
| "udp_sends (UdpSendChan p # xs) = p # udp_sends xs"
| "udp_sends (x # xs) = udp_sends xs"

definition udpSendChan :: "Backend \<Rightarrow> udpPacket list" where
  "udpSendChan b = udp_sends (sent b)"

definition sendPackets :: "udpPacket list \<Rightarrow> udpPacket list" where
  "sendPackets ps = filter (\<lambda>p. case GetPacketType (data p) of Inl e \<Rightarrow> False | Inr pt \<Rightarrow> True) ps"

definition handlePullData :: "sys \<Rightarrow> Backend \<Rightarrow> udpPacket \<Rightarrow> error option \<times> Backend" where
  "handlePullData s b up =
     (case PullDataPacket_UnmarshalBinary (data up) of
        Inl e \<Rightarrow> (Some e, b)
      | Inr p \<Rightarrow>
         (case PullACKPacket_MarshalBinary
                 \<lparr>ProtocolVersion = ProtocolVersion p, RandomToken = RandomToken p\<rparr> of
            Inl e \<Rightarrow> (Some (Wrap e ''marshal pull ack packet error''), b)
          | Inr bytes \<Rightarrow>
             (case gateways_set (GatewayMAC p)
                     \<lparr>gw_addr = addr up, lastSeen = now s,
                      protocolVersion = ProtocolVersion p\<rparr> b of
                (Some e, b1) \<Rightarrow> (Some (Wrap e ''set gateway error''), b1)
              | (None, b1) \<Rightarrow>
                 (None,
                  send (NotifyMacChan (GatewayStats_zero\<lparr>GatewayId := GatewayMAC p\<rparr>))
                    (send (UdpSendChan \<lparr>addr = addr up, data = bytes\<rparr>) b1)))))"

definition handleTXACK :: "codec \<Rightarrow> Backend \<Rightarrow> udpPacket \<Rightarrow> error option \<times> Backend" where
  "handleTXACK c b up =
     (case TXACKPacket_UnmarshalBinary c (data up) of
        Inl e \<Rightarrow> (Some e, b)
      | Inr p \<Rightarrow>
         (case txack_Payload p of
            None \<Rightarrow>
              (None, send (DownlinkTXAckChan
                 \<lparr>ack_GatewayId = GatewayMAC p, ack_Token = ucast (RandomToken p),
                  ack_Error = []\<rparr>) b)
          | Some pl \<Rightarrow>
              (if Error (TXPKACK pl) \<noteq> [] \<and> Error (TXPKACK pl) \<noteq> ''NONE''
               then (None, send (DownlinkTXAckChan
                       \<lparr>ack_GatewayId = GatewayMAC p, ack_Token = ucast (RandomToken p),
                        ack_Error = Error (TXPKACK pl)\<rparr>) b)
               else (None, send (DownlinkTXAckChan
                       \<lparr>ack_GatewayId = GatewayMAC p, ack_Token = ucast (RandomToken p),
                        ack_Error = []\<rparr>) b))))"

text \<open>The loop of \<open>handleStats\<close> over the configurations, then the send.\<close>

definition set_ConfigVersion :: "EUI64 \<Rightarrow> pfConfiguration list \<Rightarrow> GatewayStats \<Rightarrow> GatewayStats" where
  "set_ConfigVersion gid confs stats =
     foldl (\<lambda>st c. if gid = gatewayID c then st\<lparr>ConfigVersion := currentVersion c\<rparr> else st)
       stats confs"

definition handleStats :: "Backend \<Rightarrow> EUI64 \<Rightarrow> GatewayStats \<Rightarrow> Backend" where
  "handleStats b gid stats =
     send (GatewayStatsChan (set_ConfigVersion gid (configurations b) stats)) b"

definition handleUplinkFrames :: "sys \<Rightarrow> Backend \<Rightarrow> UplinkFrame list \<Rightarrow> Backend" where
  "handleUplinkFrames s b uplinkFrames =
     foldl (\<lambda>b1 f. send (UplinkFrameChan (f\<lparr>Carrier := carrier s\<rparr>)) b1) b uplinkFrames"

text \<open>The gateway ip of \<open>handlePushData\<close>: the outbound ip for a loopback source.\<close>

definition set_gateway_ip :: "sys \<Rightarrow> udpPacket \<Rightarrow> GatewayStats \<Rightarrow> GatewayStats" where
  "set_gateway_ip s up stats =
     (if IP_IsLoopback s (IP (addr up)) then
        (case getOutboundIP s of
           Inl e \<Rightarrow> stats
         | Inr ip \<Rightarrow> stats\<lparr>Ip := IP_String s ip\<rparr>)
      else stats\<lparr>Ip := IP_String s (IP (addr up))\<rparr>)"

definition handlePushData :: "codec \<Rightarrow> sys \<Rightarrow> Backend \<Rightarrow> udpPacket \<Rightarrow> error option \<times> Backend" where
  "handlePushData c s b up =
     (case PushDataPacket_UnmarshalBinary c (data up) of
        Inl e \<Rightarrow> (Some e, b)
      | Inr p \<Rightarrow>
         (case PushACKPacket_MarshalBinary
                 \<lparr>ProtocolVersion = ProtocolVersion p, RandomToken = RandomToken p\<rparr> of
            Inl e \<Rightarrow> (Some e, b)
          | Inr bytes \<Rightarrow>
             (let b1 = send (UdpSendChan \<lparr>addr = addr up, data = bytes\<rparr>) b
              in case GetGatewayStats p of
                   Inl e \<Rightarrow> (Some (Wrap e ''get stats error''), b1)
                 | Inr stats \<Rightarrow>
                    (let b2 = (case stats of
                                 None \<Rightarrow> b1
                               | Some st \<Rightarrow>
                                   handleStats b1 (GatewayMAC p) (set_gateway_ip s up st))
                     in case GetUplinkFrames c (skipCRCCheck b) (fakeRxTime b) p of
                          Inl e \<Rightarrow> (Some (Wrap e ''get uplink frames error''), b2)
                        | Inr uplinkFrames \<Rightarrow>
                            (None, handleUplinkFrames s b2 uplinkFrames)))))"

text \<open>
  \<open>handlePacket\<close> takes the read lock first, which waits while the write lock is held,
  and gives it back when it returns.
\<close>

definition handlePacket ::
    "codec \<Rightarrow> sys \<Rightarrow> Backend \<Rightarrow> udpPacket \<Rightarrow> (error option \<times> Backend) option" where
  "handlePacket c s b up =
     (if locked b then None
      else Some
        (if closed b then (None, b)
         else (case GetPacketType (data up) of
                 Inl e \<Rightarrow> (Some e, b)
               | Inr pt \<Rightarrow>
                  (if pt = PushData then handlePushData c s b up
                   else if pt = PullData then handlePullData s b up
                   else if pt = TXACK then handleTXACK c b up
                   else (Some (Errorf ''backend/semtechudp: unknown packet type''), b)))))"

text \<open>
  \<open>NewBackend\<close>, after the socket is bound: open, nothing registered, nothing sent, and one
  configuration per configured gateway with an empty current version. The gateway ids are
  taken as already parsed from their hexadecimal text.
\<close>

definition NewBackend :: "bool \<Rightarrow> bool \<Rightarrow> (EUI64 \<times> string \<times> string \<times> string) list \<Rightarrow> Backend" where
  "NewBackend fake skip confs =
     \<lparr>locked = False, closed = False, udpSendChan_closed = False, gateways = Map.empty,
      fakeRxTime = fake,
      configurations =
        map (\<lambda>(gid, base, out, cmd).
               \<lparr>gatewayID = gid, baseFile = base, outputFile = out, restartCommand = cmd,
                currentVersion = []\<rparr>) confs,
      skipCRCCheck = skip, sent = []\<rparr>"

subsection \<open>Applying a configuration\<close>

text \<open>
  What \<open>applyConfiguration\<close> calls outside the sources at hand: the conversion of the
  protobuf configuration, reading and merging the base file, the JSON library, the file
  system and the shell. Each call of \<open>ApplyConfiguration\<close> comes with the answers these
  give at that moment; the JSON objects and the channel plan are left abstract.
\<close>

record ('g, 'j) apply_env =
  getGatewayConfig :: "GatewayConfiguration \<Rightarrow> error + 'g"
  loadConfigFile :: "string \<Rightarrow> error + 'j"
  mergeConfig :: "EUI64 \<Rightarrow> 'j \<Rightarrow> 'g \<Rightarrow> error + 'j"
  json_Marshal :: "'j \<Rightarrow> error + byte list"
  ioutil_WriteFile :: "string \<Rightarrow> byte list \<Rightarrow> error option"
  invokePFRestart :: "string \<Rightarrow> error option"

text \<open>The loop at the end of \<open>applyConfiguration\<close>, under the lock.\<close>

definition set_currentVersion :: "EUI64 \<Rightarrow> string \<Rightarrow> pfConfiguration list \<Rightarrow> pfConfiguration list" where
  "set_currentVersion gid v confs =
     map (\<lambda>c. if gatewayID c = gid then c\<lparr>currentVersion := v\<rparr> else c) confs"

definition applyConfiguration ::
    "('g, 'j) apply_env \<Rightarrow> Backend \<Rightarrow> pfConfiguration \<Rightarrow> GatewayConfiguration
       \<Rightarrow> error option \<times> Backend" where
  "applyConfiguration e b pfConfig config =
     (case getGatewayConfig e config of
        Inl err \<Rightarrow> (Some (Wrap err ''get gateway config error''), b)
      | Inr gwConfig \<Rightarrow>
     (case loadConfigFile e (baseFile pfConfig) of
        Inl err \<Rightarrow> (Some (Wrap err ''load config file error''), b)
      | Inr baseConfig \<Rightarrow>
     (case mergeConfig e (gatewayID pfConfig) baseConfig gwConfig of
        Inl err \<Rightarrow> (Some (Wrap err ''merge config error''), b)
      | Inr merged \<Rightarrow>
     (case json_Marshal e merged of
        Inl err \<Rightarrow> (Some (Wrap err ''marshal json error''), b)
      | Inr bb \<Rightarrow>
     (case ioutil_WriteFile e (outputFile pfConfig) bb of
        Some err \<Rightarrow> (Some (Wrap err ''write config file error''), b)
      | None \<Rightarrow>
     (case invokePFRestart e (restartCommand pfConfig) of
        Some err \<Rightarrow> (Some (Wrap err ''invoke packet-forwarder restart error''), b)
      | None \<Rightarrow>
          (None, b\<lparr>configurations :=
                     set_currentVersion (gatewayID pfConfig) (Version config)
                       (configurations b)\<rparr>)))))))"

text \<open>The search loop of \<open>ApplyConfiguration\<close>: it does not stop at a match, the last one wins.\<close>

definition find_pfConfig :: "pfConfiguration list \<Rightarrow> EUI64 \<Rightarrow> pfConfiguration option" where
  "find_pfConfig confs gid =
     foldl (\<lambda>found c. if gatewayID c = gid then Some c else found) None confs"

definition ApplyConfiguration ::
    "('g, 'j) apply_env \<Rightarrow> Backend \<Rightarrow> GatewayConfiguration \<Rightarrow> error option \<times> Backend" where
  "ApplyConfiguration e b config =
     (case find_pfConfig (configurations b) (copy_EUI64 (cfg_GatewayId config)) of
        None \<Rightarrow> (Some ErrGatewayDoesNotExist, b)
      | Some pfConfig \<Rightarrow> applyConfiguration e b pfConfig config)"

text \<open>The current version of the configuration that the loops find for an id, if any.\<close>

definition current_version :: "pfConfiguration list \<Rightarrow> EUI64 \<Rightarrow> string" where
  "current_version confs gid =
     (case find_pfConfig confs gid of None \<Rightarrow> [] | Some pf \<Rightarrow> currentVersion pf)"

subsection \<open>Runs of the backend\<close>

text \<open>
  What reaches the backend, one at a time: a packet from the reader, a downlink frame or a
  configuration from the forwarder's loops (which log an error and go on). A handler that
  waits for the lock changes nothing.
\<close>

datatype ('g, 'j) event =
    Packet sys udpPacket
  | Downlink DownlinkFrame
  | Configuration "('g, 'j) apply_env" GatewayConfiguration

fun step :: "codec \<Rightarrow> Backend \<Rightarrow> ('g, 'j) event \<Rightarrow> Backend" where
  "step c b (Packet s up) = (case handlePacket c s b up of None \<Rightarrow> b | Some r \<Rightarrow> snd r)"
| "step c b (Downlink frame) = snd (SendDownlinkFrame c b frame)"
| "step c b (Configuration e config) = snd (ApplyConfiguration e b config)"

definition run :: "codec \<Rightarrow> Backend \<Rightarrow> ('g, 'j) event list \<Rightarrow> Backend" where
  "run c b evs = foldl (step c) b evs"

text \<open>
  The claim about the configuration version, in its own words. An apply succeeds when the
  gateway has a configuration and the conversion, the read, the merge, the encoding, the
  write and the restart all succeed; the version to report for an id is that of the most
  recent successful apply for it, or empty.
\<close>

definition steps_succeed ::
    "('g, 'j) apply_env \<Rightarrow> pfConfiguration \<Rightarrow> GatewayConfiguration \<Rightarrow> bool" where
  "steps_succeed e pf config =
     (case getGatewayConfig e config of
        Inl err \<Rightarrow> False
      | Inr gwConfig \<Rightarrow>
     (case loadConfigFile e (baseFile pf) of
        Inl err \<Rightarrow> False
      | Inr baseConfig \<Rightarrow>
     (case mergeConfig e (gatewayID pf) baseConfig gwConfig of
        Inl err \<Rightarrow> False
      | Inr merged \<Rightarrow>
     (case json_Marshal e merged of
        Inl err \<Rightarrow> False
      | Inr bb \<Rightarrow>
          ioutil_WriteFile e (outputFile pf) bb = None
          \<and> invokePFRestart e (restartCommand pf) = None))))"

fun successful_apply :: "pfConfiguration list \<Rightarrow> EUI64 \<Rightarrow> ('g, 'j) event \<Rightarrow> bool" where
  "successful_apply confs gid (Configuration e config) =
     (copy_EUI64 (cfg_GatewayId config) = gid
      \<and> (case find_pfConfig confs gid of None \<Rightarrow> False | Some pf \<Rightarrow> steps_succeed e pf config))"
| "successful_apply confs gid ev = False"

fun applied_version :: "('g, 'j) event \<Rightarrow> string" where
  "applied_version (Configuration e config) = Version config"
| "applied_version ev = []"

definition most_recent_applied_version ::
    "pfConfiguration list \<Rightarrow> ('g, 'j) event list \<Rightarrow> EUI64 \<Rightarrow> string" where
  "most_recent_applied_version confs evs gid =
     (let ok = filter (successful_apply confs gid) evs
      in if ok = [] then [] else applied_version (last ok))"

text \<open>The configured part of the descriptors: everything but the current version.\<close>

definition static_fields :: "pfConfiguration list \<Rightarrow> pfConfiguration list" where
  "static_fields confs = map (\<lambda>c. c\<lparr>currentVersion := []\<rparr>) confs"

text \<open>The statistics sent so far, in order.\<close>

fun stats_sends :: "chan_send list \<Rightarrow> GatewayStats list" where
  "stats_sends [] = []"
| "stats_sends (GatewayStatsChan gs # xs) = gs # stats_sends xs"
| "stats_sends (x # xs) = stats_sends xs"

section \<open>The forwarder's statistics loop and the metadata\<close>

text \<open>
  Modelled from the spec: package \<open>metadata\<close> is not among the sources. \<open>Get\<close> returns the
  union of the static and the dynamic map, the dynamic entry winning on a shared key.
\<close>

definition metadata_Get :: "(string \<rightharpoonup> string) \<Rightarrow> (string \<rightharpoonup> string) \<Rightarrow> (string \<rightharpoonup> string)" where
  "metadata_Get static dynamic = static ++ dynamic"

text \<open>
  The body of \<open>forwardGatewayStatsLoop\<close> for one value taken from the statistics channel:
  the arguments it passes to \<open>PublishEvent\<close>.
\<close>

definition forwardGatewayStats ::
    "(string \<rightharpoonup> string) \<Rightarrow> GatewayStats \<Rightarrow> EUI64 \<times> string \<times> GatewayStats" where
  "forwardGatewayStats md stats =
     (copy_EUI64 (GatewayId stats), ''stats'', stats\<lparr>MetaData := md\<rparr>)"

section \<open>The MQTT integration\<close>

text \<open>\<open>strings.HasSuffix\<close> and \<open>strings.Contains\<close> of the Go library.\<close>

definition HasSuffix :: "string \<Rightarrow> string \<Rightarrow> bool" where
  "HasSuffix s suffix =
     (length suffix \<le> length s \<and> drop (length s - length suffix) s = suffix)"

fun Contains :: "string \<Rightarrow> string \<Rightarrow> bool" where
  "Contains [] substr = (substr = [])"
| "Contains (x # xs) substr = (take (length substr) (x # xs) = substr \<or> Contains xs substr)"

record message =
  topic :: string
  payload :: "byte list"

text \<open>
  The integration's backend. The known subscriptions are a Go map used as a set; the model
  keeps its keys in a list without repetitions (the order in which Go ranges over a map is
  not fixed). The command topic template and the unmarshaler chosen at start-up are
  functions; the two channels keep what has been sent on them.
\<close>

record mqtt_Backend =
  mqtt_closed :: bool
  mqtt_gateways :: "EUI64 list"
  commandTopicTemplate :: "EUI64 \<Rightarrow> error + string"
  unmarshal_DownlinkFrame :: "byte list \<Rightarrow> error + DownlinkFrame"
  unmarshal_GatewayConfiguration :: "byte list \<Rightarrow> error + GatewayConfiguration"
  downlinkFrameChan :: "DownlinkFrame list"
  gatewayConfigurationChan :: "GatewayConfiguration list"

definition mqtt_NewBackend ::
    "(EUI64 \<Rightarrow> error + string) \<Rightarrow> (byte list \<Rightarrow> error + DownlinkFrame)
       \<Rightarrow> (byte list \<Rightarrow> error + GatewayConfiguration) \<Rightarrow> mqtt_Backend" where
  "mqtt_NewBackend tmpl um_down um_config =
     \<lparr>mqtt_closed = False, mqtt_gateways = [], commandTopicTemplate = tmpl,
      unmarshal_DownlinkFrame = um_down, unmarshal_GatewayConfiguration = um_config,
      downlinkFrameChan = [], gatewayConfigurationChan = []\<rparr>"

text \<open>
  \<open>subscribeGateway\<close>; \<open>conn_Subscribe\<close> is the broker's answer to the subscribe request
  for a topic (nil, or the token's error).
\<close>

definition subscribeGateway ::
    "(string \<Rightarrow> error option) \<Rightarrow> mqtt_Backend \<Rightarrow> EUI64 \<Rightarrow> error option" where
  "subscribeGateway conn_Subscribe b gid =
     (case commandTopicTemplate b gid of
        Inl e \<Rightarrow> Some (Wrap e ''execute command topic template error'')
      | Inr t \<Rightarrow>
         (case conn_Subscribe t of
            Some e \<Rightarrow> Some (Wrap e ''subscribe topic error'')
          | None \<Rightarrow> None))"

definition SubscribeGateway ::
    "(string \<Rightarrow> error option) \<Rightarrow> mqtt_Backend \<Rightarrow> EUI64 \<Rightarrow> error option \<times> mqtt_Backend" where
  "SubscribeGateway conn_Subscribe b gid =
     (case subscribeGateway conn_Subscribe b gid of
        Some e \<Rightarrow> (Some e, b)
      | None \<Rightarrow>
          (None, b\<lparr>mqtt_gateways :=
                     (if gid \<in> set (mqtt_gateways b) then mqtt_gateways b
                      else mqtt_gateways b @ [gid])\<rparr>))"

definition UnsubscribeGateway ::
    "(string \<Rightarrow> error option) \<Rightarrow> mqtt_Backend \<Rightarrow> EUI64 \<Rightarrow> error option \<times> mqtt_Backend" where
  "UnsubscribeGateway conn_Unsubscribe b gid =
     (case commandTopicTemplate b gid of
        Inl e \<Rightarrow> (Some (Wrap e ''execute command topic template error''), b)
      | Inr t \<Rightarrow>
         (case conn_Unsubscribe t of
            Some e \<Rightarrow> (Some (Wrap e ''unsubscribe topic error''), b)
          | None \<Rightarrow> (None, b\<lparr>mqtt_gateways := removeAll gid (mqtt_gateways b)\<rparr>)))"

text \<open>
  \<open>onConnected\<close>: for every known gateway, subscribe again, retrying until the broker
  accepts. \<open>broker n\<close> is the broker's answer at the \<open>n\<close>-th request. The retry loop need
  not end, so it runs on fuel; \<open>None\<close> means the fuel ran out. The result is the list of
  gateways subscribed again.
\<close>

fun retry_subscribe ::
    "nat \<Rightarrow> (nat \<Rightarrow> string \<Rightarrow> error option) \<Rightarrow> mqtt_Backend \<Rightarrow> EUI64 \<Rightarrow> nat \<Rightarrow> nat option" where
  "retry_subscribe 0 broker b gid n = None"
| "retry_subscribe (Suc fuel) broker b gid n =
     (case subscribeGateway (broker n) b gid of
        None \<Rightarrow> Some (Suc n)
      | Some e \<Rightarrow> retry_subscribe fuel broker b gid (Suc n))"

fun onConnected_loop ::
    "nat \<Rightarrow> (nat \<Rightarrow> string \<Rightarrow> error option) \<Rightarrow> mqtt_Backend \<Rightarrow> EUI64 list \<Rightarrow> nat
       \<Rightarrow> EUI64 list option" where
  "onConnected_loop fuel broker b [] n = Some []"
| "onConnected_loop fuel broker b (gid # rest) n =
     (case retry_subscribe fuel broker b gid n of
        None \<Rightarrow> None
      | Some n' \<Rightarrow>
         (case onConnected_loop fuel broker b rest n' of
            None \<Rightarrow> None
          | Some subscribed \<Rightarrow> Some (gid # subscribed)))"


definition handleDownlinkFrame :: "mqtt_Backend \<Rightarrow> message \<Rightarrow> mqtt_Backend" where
  "handleDownlinkFrame b msg =
     (case unmarshal_DownlinkFrame b (payload msg) of
        Inl e \<Rightarrow> b
      | Inr downlinkFrame \<Rightarrow> b\<lparr>downlinkFrameChan := downlinkFrameChan b @ [downlinkFrame]\<rparr>)"

definition handleGatewayConfiguration :: "mqtt_Backend \<Rightarrow> message \<Rightarrow> mqtt_Backend" where
  "handleGatewayConfiguration b msg =
     (case unmarshal_GatewayConfiguration b (payload msg) of
        Inl e \<Rightarrow> b
      | Inr gatewayConfig \<Rightarrow>
          b\<lparr>gatewayConfigurationChan := gatewayConfigurationChan b @ [gatewayConfig]\<rparr>)"

definition handleCommand :: "mqtt_Backend \<Rightarrow> message \<Rightarrow> mqtt_Backend" where
  "handleCommand b msg =
     (if HasSuffix (topic msg) ''down'' \<or> Contains (topic msg) ''command=down''
      then handleDownlinkFrame b msg
      else if HasSuffix (topic msg) ''config'' \<or> Contains (topic msg) ''command=config''
      then handleGatewayConfiguration b msg
      else b)"

subsection \<open>Runs of subscribe and unsubscribe calls\<close>

datatype mqtt_call =
    SubscribeCall EUI64 "string \<Rightarrow> error option"
  | UnsubscribeCall EUI64 "string \<Rightarrow> error option"

fun mqtt_step :: "mqtt_Backend \<Rightarrow> mqtt_call \<Rightarrow> mqtt_Backend" where
  "mqtt_step b (SubscribeCall gid conn_Subscribe) = snd (SubscribeGateway conn_Subscribe b gid)"
| "mqtt_step b (UnsubscribeCall gid conn_Unsubscribe) =
     snd (UnsubscribeGateway conn_Unsubscribe b gid)"


text \<open>
  The claim about the known subscriptions, in its own words: a call is a successful
  subscribe (unsubscribe) of an id when it is for that id, the topic renders and the
  broker accepts; an id is expected to be known when a successful subscribe of it is not
  followed by a successful unsubscribe of it.
\<close>

fun successful_subscribe :: "mqtt_Backend \<Rightarrow> EUI64 \<Rightarrow> mqtt_call \<Rightarrow> bool" where
  "successful_subscribe b gid (SubscribeCall g conn_Subscribe) =
     (g = gid \<and> (case commandTopicTemplate b g of Inl e \<Rightarrow> False | Inr t \<Rightarrow> conn_Subscribe t = None))"
| "successful_subscribe b gid (UnsubscribeCall g conn_Unsubscribe) = False"

fun successful_unsubscribe :: "mqtt_Backend \<Rightarrow> EUI64 \<Rightarrow> mqtt_call \<Rightarrow> bool" where
  "successful_unsubscribe b gid (UnsubscribeCall g conn_Unsubscribe) =
     (g = gid \<and> (case commandTopicTemplate b g of Inl e \<Rightarrow> False | Inr t \<Rightarrow> conn_Unsubscribe t = None))"
| "successful_unsubscribe b gid (SubscribeCall g conn_Subscribe) = False"

definition expected_subscriptions :: "mqtt_Backend \<Rightarrow> mqtt_call list \<Rightarrow> EUI64 set" where
  "expected_subscriptions b calls =
     {gid. \<exists>before s after.
             calls = before @ s # after \<and> successful_subscribe b gid s
             \<and> list_all (\<lambda>u. \<not> successful_unsubscribe b gid u) after}"

subsection \<open>Stand-ins for the libraries, used in the examples\<close>

text \<open>
  The examples below need a concrete JSON library, clock and network. These stand-ins know
  a single document each: an empty body does not parse, the body \<open>{}\<close> is the empty
  payload, any other body is the sample payload.
\<close>

definition example_stat :: Stat where
  "example_stat =
     \<lparr>stat_Time = ''2019-01-01 00:00:00 GMT'', stat_Position = None,
      RXNb = 2, RXOK = 1, DWNb = 0, TXNb = 0\<rparr>"

definition example_rxpk :: RXPK where
  "example_rxpk =
     \<lparr>rxpk_Tmst = 1, rxpk_Time = None, rxpk_Freq = 0, rxpk_Stat = 1, rxpk_Modu = ''LORA'',
      rxpk_DatR = ''SF7BW125'', rxpk_CodR = ''4/5'', rxpk_RSSI = - 42, rxpk_LSNR = 0,
      rxpk_Data = ''AQIDBA==''\<rparr>"

definition example_txpk :: TXPK where
  "example_txpk =
     \<lparr>txpk_Imme = True, txpk_Tmst = None, txpk_Freq = 0, txpk_Powe = 14,
      txpk_Modu = ''LORA'', txpk_DatR = ''SF12BW125'', txpk_CodR = ''4/5'',
      txpk_IPol = True, txpk_Data = ''AQIDBA==''\<rparr>"

definition example_codec :: codec where
  "example_codec =
     \<lparr>json_PushDataPayload =
        (\<lambda>bs. if bs = [] then Inl (ErrorNew ''unexpected end of JSON input'')
              else if bs = [123, 125] then Inr \<lparr>pl_RXPK = [], pl_Stat = None\<rparr>
              else Inr \<lparr>pl_RXPK = [example_rxpk], pl_Stat = Some example_stat\<rparr>),
      json_TXACKPayload =
        (\<lambda>bs. if bs = [] then Inl (ErrorNew ''unexpected end of JSON input'')
              else if bs = [123, 125] then Inr \<lparr>TXPKACK = \<lparr>Error = []\<rparr>\<rparr>
              else Inr \<lparr>TXPKACK = \<lparr>Error = ''TOO_LATE''\<rparr>\<rparr>),
      GetUplinkFrames =
        (\<lambda>skip fake p.
           Inr (map (\<lambda>r. \<lparr>up_PhyPayload = [1, 2, 3, 4], rx_GatewayId = GatewayMAC p,
                           rx_Ip = [], Carrier = []\<rparr>)
                  (filter (\<lambda>r. skip \<or> rxpk_Stat r \<noteq> - 1) (pl_RXPK (Payload p))))),
      txpk_of_frame = (\<lambda>frame. Inr example_txpk),
      json_Marshal_TXPK = (\<lambda>pk. Inr [123, 125])\<rparr>"

definition example_sys :: sys where
  "example_sys =
     \<lparr>now = 1546300800, IP_IsLoopback = (\<lambda>ip. take 1 ip = [127]),
      IP_String = (\<lambda>ip. if ip = [192, 0, 2, 7] then ''192.0.2.7'' else ''198.51.100.1''),
      getOutboundIP = Inr [198, 51, 100, 1], carrier = [7, 7]\<rparr>"

definition example_addr :: UDPAddr where
  "example_addr = \<lparr>IP = [192, 0, 2, 7], Port = 1700\<rparr>"

definition example_mac :: EUI64 where
  "example_mac = [1, 2, 3, 4, 5, 6, 7, 8]"

definition example_push :: udpPacket where
  "example_push =
     \<lparr>addr = example_addr, data = [2, 18, 52, 0, 1, 2, 3, 4, 5, 6, 7, 8, 123, 34, 125]\<rparr>"

text \<open>A file system and a shell where every step of an apply succeeds, and one where the
  restart command fails.\<close>

definition example_apply_env :: "(32 word list, string) apply_env" where
  "example_apply_env =
     \<lparr>getGatewayConfig = (\<lambda>config. Inr (Channels config)),
      loadConfigFile =
        (\<lambda>f. if f = ''base.json'' then Inr ''{}'' else Inl (ErrorNew ''no such file'')),
      mergeConfig = (\<lambda>gid base gwConfig. Inr base),
      json_Marshal = (\<lambda>j. Inr [123, 125]),
      ioutil_WriteFile = (\<lambda>f bb. None),
      invokePFRestart = (\<lambda>cmd. None)\<rparr>"

definition example_failing_env :: "(32 word list, string) apply_env" where
  "example_failing_env =
     example_apply_env\<lparr>invokePFRestart := (\<lambda>cmd. Some (ErrorNew ''exit status 1''))\<rparr>"

definition example_confs :: "(EUI64 \<times> string \<times> string \<times> string) list" where
  "example_confs = [(example_mac, ''base.json'', ''out.json'', ''restart'')]"

definition example_config :: "string \<Rightarrow> GatewayConfiguration" where
  "example_config v = \<lparr>cfg_GatewayId = example_mac, Version = v, Channels = [868100000]\<rparr>"

definition example_stats :: GatewayStats where
  "example_stats =
     GatewayStats_zero
       \<lparr>GatewayId := example_mac, Ip := ''192.0.2.7'', Time := ''2019-01-01 00:00:00 GMT'',
        RxPacketsReceived := 2, RxPacketsReceivedOk := 1\<rparr>"

text \<open>A command topic template, an unmarshaler and broker answers for the examples.\<close>

definition example_template :: "EUI64 \<Rightarrow> error + string" where
  "example_template gid =
     (if gid = example_mac then Inr ''gateway/0102030405060708/command/#''
      else Inr ''gateway/other/command/#'')"

definition example_unmarshal_down :: "byte list \<Rightarrow> error + DownlinkFrame" where
  "example_unmarshal_down bs =
     (if bs = [] then Inl (ErrorNew ''unexpected EOF'')
      else Inr \<lparr>PhyPayload = bs, TxInfo = None, Token = 7\<rparr>)"

definition example_unmarshal_config :: "byte list \<Rightarrow> error + GatewayConfiguration" where
  "example_unmarshal_config bs =
     (if bs = [] then Inl (ErrorNew ''unexpected EOF'')
      else Inr \<lparr>cfg_GatewayId = example_mac, Version = ''v2'', Channels = []\<rparr>)"

definition example_mqtt :: mqtt_Backend where
  "example_mqtt =
     mqtt_NewBackend example_template example_unmarshal_down example_unmarshal_config"






definition example_down_msg :: message where
  "example_down_msg = \<lparr>topic = ''gateway/0102030405060708/command/down'', payload = [10, 3]\<rparr>"

definition example_config_msg :: message where
  "example_config_msg =
     \<lparr>topic = ''gateway/0102030405060708/command/config'', payload = [10, 8]\<rparr>"

definition example_other_msg :: message where
  "example_other_msg =
     \<lparr>topic = ''gateway/0102030405060708/command/reboot'', payload = [10, 3]\<rparr>"

definition example_empty_down_msg :: message where
  "example_empty_down_msg =
     \<lparr>topic = ''gateway/0102030405060708/command/down'', payload = []\<rparr>"

definition example_overlap_msg :: message where
  "example_overlap_msg =
     \<lparr>topic = ''gateway/0102030405060708/command/command=down/config'', payload = [10, 3]\<rparr>"

section \<open>Properties of the codec\<close>

lemma token_hi_of [simp]: "token_hi (token_of hi lo) = hi"
  unfolding token_hi_def token_of_def
  by (rule bit_word_eqI) (auto simp: bit_simps dest: bit_imp_le_length)

lemma token_lo_of [simp]: "token_lo (token_of hi lo) = lo"
  unfolding token_lo_def token_of_def
  by (rule bit_word_eqI) (auto simp: bit_simps dest: bit_imp_le_length)

lemma token_of_hi_lo [simp]: "token_of (token_hi t) (token_lo t) = t"
  unfolding token_hi_def token_lo_def token_of_def
  by (rule bit_word_eqI) (auto simp: bit_simps)

lemma unat_ucast_token: "unat (ucast (t :: 32 word) :: 16 word) = unat t mod 65536"
  by (simp add: unsigned_ucast_eq take_bit_eq_mod)

lemma unat_ucast_up: "unat (ucast (t :: 16 word) :: 32 word) = unat t"
proof -
  have "unat t < 2 ^ 16"
    using unsigned_less [of t, where ?'a = nat] by simp
  then show ?thesis
    by (simp add: unsigned_ucast_eq take_bit_eq_mod)
qed

section \<open>Properties of the UDP backend\<close>

text \<open>Dispatch by packet type: a packet that decodes goes to the handler of its type.\<close>

lemma handlePacket_PullData:
  assumes "\<not> locked b" and "\<not> closed b"
    and "PullDataPacket_UnmarshalBinary (data up) = Inr p"
  shows "handlePacket c s b up = Some (handlePullData s b up)"
  using assms
  by (auto simp: handlePacket_def GetPacketType_def PullDataPacket_UnmarshalBinary_def
      PullData_def PushData_def split: if_splits)

lemma handlePacket_PushData:
  assumes "\<not> locked b" and "\<not> closed b"
    and "PushDataPacket_UnmarshalBinary c (data up) = Inr p"
  shows "handlePacket c s b up = Some (handlePushData c s b up)"
  using assms
  by (auto simp: handlePacket_def GetPacketType_def PushDataPacket_UnmarshalBinary_def
      split: if_splits)

lemma handlePacket_TXACK:
  assumes "\<not> locked b" and "\<not> closed b"
    and "TXACKPacket_UnmarshalBinary c (data up) = Inr p"
  shows "handlePacket c s b up = Some (handleTXACK c b up)"
  using assms
  by (auto simp: handlePacket_def GetPacketType_def TXACKPacket_UnmarshalBinary_def
      TXACK_def PullData_def PushData_def split: if_splits)

text \<open>
  After a \<open>Close\<close> in which closing the socket succeeded, the flag is set and the lock is
  free: \<open>handlePacket\<close> returns nil and leaves the backend as it is, for one packet and
  for any number of packets handled one after the other.
\<close>

lemma handlePacket_closed:
  "\<not> locked b \<Longrightarrow> closed b \<Longrightarrow> handlePacket c s b up = Some (None, b)"
  by (simp add: handlePacket_def)

lemma handlePackets_closed:
  "\<not> locked b \<Longrightarrow> closed b \<Longrightarrow>
     foldl (\<lambda>b1 su. case handlePacket c (fst su) b1 (snd su) of None \<Rightarrow> b1 | Some r \<Rightarrow> snd r)
       b packets = b"
  by (induction packets) (simp_all add: handlePacket_closed)

lemma Close_succeeds:
  "\<not> locked b \<Longrightarrow>
     Close None b = Some (None, b\<lparr>closed := True, udpSendChan_closed := True\<rparr>)"
  by (simp add: Close_def Let_def)

lemma handlePacket_after_successful_Close:
  assumes "Close None b = Some (r, b')"
  shows "r = None \<and> closed b' \<and> \<not> locked b' \<and> handlePacket c s b' up = Some (None, b')"
  using assms
  by (auto simp: Close_def Let_def handlePacket_def split: if_splits)

text \<open>When closing the socket fails, \<open>Close\<close> returns with the flag set and the lock held.\<close>

lemma Close_fails:
  "\<not> locked b \<Longrightarrow>
     Close (Some e) b
       = Some (Some (Wrap e ''close udp listener error''), b\<lparr>locked := True, closed := True\<rparr>)"
  by (simp add: Close_def Let_def)

lemma handlePacket_locked: "locked b \<Longrightarrow> handlePacket c s b up = None"
  by (simp add: handlePacket_def)

lemma handlePacket_after_failed_Close:
  assumes "Close (Some e) b = Some (r, b')"
  shows "closed b' \<and> locked b' \<and> handlePacket c s b' up = None"
  using assms
  by (auto simp: Close_def Let_def handlePacket_def split: if_splits)

text \<open>
  C9. After \<open>Close\<close> has set the closed flag, \<open>handlePacket\<close> should return nil for every
  packet and change nothing. The code does so when closing the socket succeeded, but not
  when it failed, as it does for a second \<open>Close\<close> on the closed socket. Here the first
  \<open>Close\<close> of a new backend succeeds, and a packet handled after it returns nil with the
  backend unchanged. The second \<open>Close\<close> sets the flag again and returns its error with
  the write lock still held, and a packet handled after that never returns: it waits for
  the read lock.
\<close>

theorem handlePacket_waits_after_failed_Close:
  "Close None (NewBackend False False [])
     = Some (None, (NewBackend False False [])\<lparr>closed := True, udpSendChan_closed := True\<rparr>)
   \<and> handlePacket example_codec example_sys
        ((NewBackend False False [])\<lparr>closed := True, udpSendChan_closed := True\<rparr>)
        example_push
     = Some (None, (NewBackend False False [])\<lparr>closed := True, udpSendChan_closed := True\<rparr>)
   \<and> Close (Some (ErrorNew ''use of closed network connection''))
        ((NewBackend False False [])\<lparr>closed := True, udpSendChan_closed := True\<rparr>)
     = Some (Some (Wrap (ErrorNew ''use of closed network connection'')
                    ''close udp listener error''),
             (NewBackend False False [])
               \<lparr>closed := True, udpSendChan_closed := True, locked := True\<rparr>)
   \<and> closed ((NewBackend False False [])
               \<lparr>closed := True, udpSendChan_closed := True, locked := True\<rparr>)
   \<and> handlePacket example_codec example_sys
        ((NewBackend False False [])
           \<lparr>closed := True, udpSendChan_closed := True, locked := True\<rparr>)
        example_push
     = None"
  by (simp add: Close_def Let_def handlePacket_def NewBackend_def)

text \<open>
  C3. \<open>SendDownlinkFrame\<close> with a frame whose \<open>TxInfo.GatewayId\<close> has no entry in the
  gateway registry returns the error "gateway does not exist" (wrapped as "get gateway
  error"), and the backend is unchanged: nothing is put on the outbound channel, so the
  writer hands nothing new to the socket.
\<close>

theorem SendDownlinkFrame_unknown_gateway:
  assumes "TxInfo frame = Some ti"
    and "gateways b (copy_EUI64 (tx_GatewayId ti)) = None"
  shows "SendDownlinkFrame c b frame =
           (Some (Wrap ErrGatewayDoesNotExist ''get gateway error''), b)
       \<and> Cause (the (fst (SendDownlinkFrame c b frame))) = ErrGatewayDoesNotExist
       \<and> Error_string (the (fst (SendDownlinkFrame c b frame)))
           = ''get gateway error: gateway does not exist''
       \<and> udpSendChan (snd (SendDownlinkFrame c b frame)) = udpSendChan b
       \<and> sendPackets (udpSendChan (snd (SendDownlinkFrame c b frame)))
           = sendPackets (udpSendChan b)"
  using assms by (simp add: SendDownlinkFrame_def gateways_get_def)

theorem SendDownlinkFrame_unknown_gateway_witness:
  "SendDownlinkFrame example_codec (NewBackend False False [])
      \<lparr>PhyPayload = [1, 2, 3], 
       TxInfo = Some \<lparr>tx_GatewayId = [255, 255, 255, 255, 255, 255, 255, 255],
                      tx_Frequency = 868100000, tx_Power = 14\<rparr>,
       Token = 1234\<rparr>
     = (Some (Wrap ErrGatewayDoesNotExist ''get gateway error''), NewBackend False False [])
   \<and> sendPackets (udpSendChan (NewBackend False False [])) = []"
  using SendDownlinkFrame_unknown_gateway
    [of "\<lparr>PhyPayload = [1, 2, 3], 
       TxInfo = Some \<lparr>tx_GatewayId = [255, 255, 255, 255, 255, 255, 255, 255],
                      tx_Frequency = 868100000, tx_Power = 14\<rparr>,
       Token = 1234\<rparr>"
       "\<lparr>tx_GatewayId = [255, 255, 255, 255, 255, 255, 255, 255],
                      tx_Frequency = 868100000, tx_Power = 14\<rparr>"
       "NewBackend False False []" example_codec]
  by (simp add: NewBackend_def udpSendChan_def sendPackets_def)

text \<open>
  C1. For a \<open>PULL_DATA\<close> packet, \<open>handlePullData\<close> returns nil; the registry entry of the
  packet's MAC becomes the source address, the current time and the packet's protocol
  version (with a connect event when the id was new); exactly one \<open>PULL_ACK\<close> goes to the
  source address with the request's version and token bytes; then one NotifyMac event
  follows whose only set field is the gateway id.
\<close>

theorem handlePullData_ack_registry_notify:
  assumes "PullDataPacket_UnmarshalBinary (data up) = Inr p"
  shows "fst (handlePullData s b up) = None
       \<and> sent (snd (handlePullData s b up)) =
            sent b
            @ (if gateways b (GatewayMAC p) = None then [ConnectChan (GatewayMAC p)] else [])
            @ [UdpSendChan \<lparr>addr = addr up, data = [data up ! 0, data up ! 1, data up ! 2, PullACK]\<rparr>,
               NotifyMacChan (GatewayStats_zero\<lparr>GatewayId := GatewayMAC p\<rparr>)]
       \<and> ProtocolVersion p = data up ! 0
       \<and> RandomToken p = token_of (data up ! 1) (data up ! 2)
       \<and> gateways (snd (handlePullData s b up)) =
            (gateways b)(GatewayMAC p \<mapsto>
               \<lparr>gw_addr = addr up, lastSeen = now s, protocolVersion = ProtocolVersion p\<rparr>)"
  using assms
  by (auto simp: handlePullData_def PullDataPacket_UnmarshalBinary_def
      PullACKPacket_MarshalBinary_def marshal_prefix_def gateways_set_def send_def Let_def
      split: if_splits option.splits)


theorem handlePullData_ack_registry_notify_witness:
  "PullDataPacket_UnmarshalBinary [2, 171, 205, 2, 1, 2, 3, 4, 5, 6, 7, 8]
     = Inr \<lparr>ProtocolVersion = 2, RandomToken = 43981, GatewayMAC = example_mac\<rparr>
   \<and> sent (snd (handlePullData example_sys (NewBackend False False [])
               \<lparr>addr = example_addr, data = [2, 171, 205, 2, 1, 2, 3, 4, 5, 6, 7, 8]\<rparr>))
     = [ConnectChan example_mac,
        UdpSendChan \<lparr>addr = example_addr, data = [2, 171, 205, 4]\<rparr>,
        NotifyMacChan (GatewayStats_zero\<lparr>GatewayId := example_mac\<rparr>)]
   \<and> gateways (snd (handlePullData example_sys (NewBackend False False [])
               \<lparr>addr = example_addr, data = [2, 171, 205, 2, 1, 2, 3, 4, 5, 6, 7, 8]\<rparr>))
         example_mac
     = Some \<lparr>gw_addr = example_addr, lastSeen = 1546300800, protocolVersion = 2\<rparr>"
proof -
  have h: "PullDataPacket_UnmarshalBinary
             (data \<lparr>addr = example_addr, data = [2, 171, 205, 2, 1, 2, 3, 4, 5, 6, 7, 8]\<rparr>)
           = Inr \<lparr>ProtocolVersion = 2, RandomToken = 43981, GatewayMAC = example_mac\<rparr>"
    by (simp add: PullDataPacket_UnmarshalBinary_def PullData_def protocolSupported_def
        token_of_def example_mac_def)
  show ?thesis
    using h handlePullData_ack_registry_notify [OF h, of example_sys "NewBackend False False []"]
    by (simp add: NewBackend_def PullACK_def example_sys_def)
qed

text \<open>
  C4. For a \<open>TX_ACK\<close> packet, \<open>handleTXACK\<close> emits one \<open>DownlinkTXAck\<close> whose token is the
  packet's 16-bit random token (zero-extended) and whose error is empty when the JSON body
  is absent or its error is empty or "NONE", and the received error string otherwise.
\<close>

theorem handleTXACK_token_and_error:
  assumes "TXACKPacket_UnmarshalBinary c (data up) = Inr p"
  shows "handleTXACK c b up =
           (None, send (DownlinkTXAckChan
              \<lparr>ack_GatewayId = GatewayMAC p, ack_Token = ucast (RandomToken p),
               ack_Error =
                 (case txack_Payload p of
                    None \<Rightarrow> []
                  | Some pl \<Rightarrow>
                      if Error (TXPKACK pl) = [] \<or> Error (TXPKACK pl) = ''NONE'' then []
                      else Error (TXPKACK pl))\<rparr>) b)
       \<and> unat (ucast (RandomToken p) :: 32 word) = unat (RandomToken p)
       \<and> RandomToken p = token_of (data up ! 1) (data up ! 2)"
  using assms
  by (auto simp: handleTXACK_def TXACKPacket_UnmarshalBinary_def unat_ucast_up
      split: option.splits if_splits sum.splits)

theorem handleTXACK_token_and_error_witness:
  "handleTXACK example_codec (NewBackend False False [])
      \<lparr>addr = example_addr, data = [2, 170, 187, 5, 1, 2, 3, 4, 5, 6, 7, 8, 123, 34, 125]\<rparr>
   = (None, send (DownlinkTXAckChan
        \<lparr>ack_GatewayId = example_mac, ack_Token = 43707, ack_Error = ''TOO_LATE''\<rparr>)
        (NewBackend False False []))"
proof -
  have h: "TXACKPacket_UnmarshalBinary example_codec
             (data \<lparr>addr = example_addr,
                    data = [2, 170, 187, 5, 1, 2, 3, 4, 5, 6, 7, 8, 123, 34, 125]\<rparr>)
           = Inr \<lparr>ProtocolVersion = 2, RandomToken = 43707, GatewayMAC = example_mac,
                  txack_Payload = Some \<lparr>TXPKACK = \<lparr>Error = ''TOO_LATE''\<rparr>\<rparr>\<rparr>"
    by (simp add: TXACKPacket_UnmarshalBinary_def TXACK_def protocolSupported_def
        token_of_def example_mac_def example_codec_def)
  show ?thesis
    using handleTXACK_token_and_error [OF h, of "NewBackend False False []"]
    by simp
qed

text \<open>
  C6. Whenever \<open>SendDownlinkFrame\<close> succeeds it puts exactly one datagram on the outbound
  channel, a \<open>PULL_RESP\<close> whose random-token field is the low 16 bits of the frame's
  \<open>Token\<close>.
\<close>

theorem SendDownlinkFrame_token_low_16_bits:
  assumes "SendDownlinkFrame c b frame = (None, b')"
  shows "\<exists>p. sent b' = sent b @ [UdpSendChan p]
           \<and> 4 \<le> length (data p)
           \<and> data p ! 3 = PullResp
           \<and> token_of (data p ! 1) (data p ! 2) = ucast (Token frame)
           \<and> unat (token_of (data p ! 1) (data p ! 2)) = unat (Token frame) mod 2 ^ 16"
  using assms
  by (auto simp: SendDownlinkFrame_def GetPullRespPacket_def PullRespPacket_MarshalBinary_def
      marshal_prefix_def send_def unat_ucast_token
      split: option.splits sum.splits)

theorem SendDownlinkFrame_token_low_16_bits_witness:
  "SendDownlinkFrame example_codec
      ((NewBackend False False [])
         \<lparr>gateways := [example_mac \<mapsto>
            \<lparr>gw_addr = example_addr, lastSeen = 1546300800, protocolVersion = 2\<rparr>]\<rparr>)
      \<lparr>PhyPayload = [1, 2, 3],
       TxInfo = Some \<lparr>tx_GatewayId = example_mac, tx_Frequency = 868100000, tx_Power = 14\<rparr>,
       Token = 305419896\<rparr>
   = (None,
      send (UdpSendChan \<lparr>addr = example_addr, data = [2, 86, 120, 3, 123, 125]\<rparr>)
        ((NewBackend False False [])
           \<lparr>gateways := [example_mac \<mapsto>
              \<lparr>gw_addr = example_addr, lastSeen = 1546300800, protocolVersion = 2\<rparr>]\<rparr>))
   \<and> token_of 86 120 = (ucast (305419896 :: 32 word) :: 16 word)
   \<and> (305419896 :: nat) mod 2 ^ 16 = 22136"
proof -
  have h: "SendDownlinkFrame example_codec
      ((NewBackend False False [])
         \<lparr>gateways := [example_mac \<mapsto>
            \<lparr>gw_addr = example_addr, lastSeen = 1546300800, protocolVersion = 2\<rparr>]\<rparr>)
      \<lparr>PhyPayload = [1, 2, 3],
       TxInfo = Some \<lparr>tx_GatewayId = example_mac, tx_Frequency = 868100000, tx_Power = 14\<rparr>,
       Token = 305419896\<rparr>
   = (None,
      send (UdpSendChan \<lparr>addr = example_addr, data = [2, 86, 120, 3, 123, 125]\<rparr>)
        ((NewBackend False False [])
           \<lparr>gateways := [example_mac \<mapsto>
              \<lparr>gw_addr = example_addr, lastSeen = 1546300800, protocolVersion = 2\<rparr>]\<rparr>))"
    by (simp add: SendDownlinkFrame_def gateways_get_def copy_EUI64_def example_mac_def
        GetPullRespPacket_def PullRespPacket_MarshalBinary_def marshal_prefix_def
        example_codec_def token_hi_def token_lo_def PullResp_def send_def)
  show ?thesis
    using h SendDownlinkFrame_token_low_16_bits [OF h]
    by (simp add: send_def)
qed
lemma sent_send [simp]: "sent (send x b) = sent b @ [x]"
  by (simp add: send_def)

lemma sent_handleUplinkFrames:
  "sent (handleUplinkFrames s b fs) =
     sent b @ map (\<lambda>f. UplinkFrameChan (f\<lparr>Carrier := carrier s\<rparr>)) fs"
  unfolding handleUplinkFrames_def
  by (induction fs arbitrary: b) simp_all

lemma sent_handleStats:
  "\<exists>gs. sent (handleStats b gid stats) = sent b @ [GatewayStatsChan gs]"
  by (simp add: handleStats_def)

text \<open>
  C2. For a \<open>PUSH_DATA\<close> packet, what \<open>handlePushData\<close> sends is, in order: one \<open>PUSH_ACK\<close>
  to the source address with the request's version and token bytes, then the
  \<open>GatewayStats\<close> event when the packet has a \<open>stat\<close> object, then the \<open>UplinkFrame\<close>
  events; nothing else is sent. So the acknowledgement precedes every event and the
  statistics precede the uplinks.
\<close>

theorem handlePushData_ack_first_stats_before_uplinks:
  assumes "PushDataPacket_UnmarshalBinary c (data up) = Inr p"
  shows "\<exists>gs ups.
           sent (snd (handlePushData c s b up)) =
             sent b
             @ [UdpSendChan \<lparr>addr = addr up,
                              data = [data up ! 0, data up ! 1, data up ! 2, PushACK]\<rparr>]
             @ (if pl_Stat (Payload p) = None then [] else [GatewayStatsChan gs])
             @ map UplinkFrameChan ups"
proof -
  let ?ack = "UdpSendChan \<lparr>addr = addr up,
                 data = [data up ! 0, data up ! 1, data up ! 2, PushACK]\<rparr>"
  let ?b1 = "send ?ack b"
  have hdr: "ProtocolVersion p = data up ! 0" "RandomToken p = token_of (data up ! 1) (data up ! 2)"
    using assms
    by (auto simp: PushDataPacket_UnmarshalBinary_def split: if_splits sum.splits)
  obtain b2 gs where b2: "b2 = (case pl_Stat (Payload p) of None \<Rightarrow> ?b1
            | Some st \<Rightarrow> handleStats ?b1 (GatewayMAC p)
                 (set_gateway_ip s up (the (projr (GetGatewayStats p)))))"
    and sb2: "sent b2 = sent ?b1 @ (if pl_Stat (Payload p) = None then [] else [GatewayStatsChan gs])"
    by (cases "pl_Stat (Payload p)") (auto simp: handleStats_def)
  show ?thesis
  proof (cases "GetUplinkFrames c (skipCRCCheck b) (fakeRxTime b) p")
    case (Inl e)
    then have "snd (handlePushData c s b up) = b2"
      using assms b2
      by (auto simp: handlePushData_def PushACKPacket_MarshalBinary_def marshal_prefix_def
          GetGatewayStats_def Let_def hdr split: option.splits)
    then have "sent (snd (handlePushData c s b up)) =
        sent b @ [?ack] @ (if pl_Stat (Payload p) = None then [] else [GatewayStatsChan gs])
          @ map UplinkFrameChan []"
      using sb2 by simp
    then show ?thesis by blast
  next
    case (Inr fs)
    then have "snd (handlePushData c s b up) = handleUplinkFrames s b2 fs"
      using assms b2
      by (auto simp: handlePushData_def PushACKPacket_MarshalBinary_def marshal_prefix_def
          GetGatewayStats_def Let_def hdr split: option.splits)
    then have "sent (snd (handlePushData c s b up)) =
        sent b @ [?ack] @ (if pl_Stat (Payload p) = None then [] else [GatewayStatsChan gs])
          @ map UplinkFrameChan (map (\<lambda>f. f\<lparr>Carrier := carrier s\<rparr>) fs)"
      using sb2 by (simp add: sent_handleUplinkFrames comp_def)
    then show ?thesis by blast
  qed
qed

theorem handlePushData_ack_first_stats_before_uplinks_witness:
  "sent (snd (handlePushData example_codec example_sys (NewBackend False False [])
            \<lparr>addr = example_addr,
             data = [2, 18, 52, 0, 1, 2, 3, 4, 5, 6, 7, 8, 123, 34, 125]\<rparr>))
   = [UdpSendChan \<lparr>addr = example_addr, data = [2, 18, 52, 1]\<rparr>,
      GatewayStatsChan
        (GatewayStats_zero
           \<lparr>GatewayId := example_mac, Ip := ''192.0.2.7'',
            Time := ''2019-01-01 00:00:00 GMT'',
            RxPacketsReceived := 2, RxPacketsReceivedOk := 1\<rparr>),
      UplinkFrameChan
        \<lparr>up_PhyPayload = [1, 2, 3, 4], rx_GatewayId = example_mac, rx_Ip = [],
         Carrier = [7, 7]\<rparr>]"
proof -
  have h: "PushDataPacket_UnmarshalBinary example_codec
             (data \<lparr>addr = example_addr,
                    data = [2, 18, 52, 0, 1, 2, 3, 4, 5, 6, 7, 8, 123, 34, 125]\<rparr>)
           = Inr \<lparr>ProtocolVersion = 2, RandomToken = 4660, GatewayMAC = example_mac,
                  Payload = \<lparr>pl_RXPK = [example_rxpk], pl_Stat = Some example_stat\<rparr>\<rparr>"
    by (simp add: PushDataPacket_UnmarshalBinary_def PushData_def protocolSupported_def
        token_of_def example_mac_def example_codec_def)
  have h': "PushDataPacket_UnmarshalBinary example_codec
             [2, 18, 52, 0, 1, 2, 3, 4, 5, 6, 7, 8, 123, 34, 125]
           = Inr \<lparr>ProtocolVersion = 2, RandomToken = 4660, GatewayMAC = example_mac,
                  Payload = \<lparr>pl_RXPK = [example_rxpk], pl_Stat = Some example_stat\<rparr>\<rparr>"
    using h by simp
  have r: "sent (snd (handlePushData example_codec example_sys (NewBackend False False [])
            \<lparr>addr = example_addr,
             data = [2, 18, 52, 0, 1, 2, 3, 4, 5, 6, 7, 8, 123, 34, 125]\<rparr>))
   = [UdpSendChan \<lparr>addr = example_addr, data = [2, 18, 52, 1]\<rparr>,
      GatewayStatsChan
        (GatewayStats_zero
           \<lparr>GatewayId := example_mac, Ip := ''192.0.2.7'',
            Time := ''2019-01-01 00:00:00 GMT'',
            RxPacketsReceived := 2, RxPacketsReceivedOk := 1\<rparr>),
      UplinkFrameChan
        \<lparr>up_PhyPayload = [1, 2, 3, 4], rx_GatewayId = example_mac, rx_Ip = [],
         Carrier = [7, 7]\<rparr>]"
    by (simp add: handlePushData_def h' PushACKPacket_MarshalBinary_def marshal_prefix_def
        token_hi_def token_lo_def PushACK_def GetGatewayStats_def Let_def handleStats_def
        set_ConfigVersion_def handleUplinkFrames_def send_def)
      (simp_all add: example_codec_def example_sys_def example_addr_def set_gateway_ip_def
        NewBackend_def example_stat_def example_rxpk_def GatewayStats_zero_def
        handleUplinkFrames_def send_def handleStats_def set_ConfigVersion_def
        token_hi_def token_lo_def)
  show ?thesis
    using r handlePushData_ack_first_stats_before_uplinks
      [OF h, of example_sys "NewBackend False False []"]
    by simp
qed

section \<open>The configuration version in the statistics\<close>

lemma find_pfConfig_snoc:
  "find_pfConfig (confs @ [c]) gid =
     (if gatewayID c = gid then Some c else find_pfConfig confs gid)"
  by (simp add: find_pfConfig_def)

lemma find_pfConfig_Nil [simp]: "find_pfConfig [] gid = None"
  by (simp add: find_pfConfig_def)

lemma find_pfConfig_gatewayID:
  "find_pfConfig confs gid = Some pf \<Longrightarrow> gatewayID pf = gid"
  by (induction confs rule: rev_induct) (auto simp: find_pfConfig_snoc split: if_splits)

lemma set_ConfigVersion_eq:
  "set_ConfigVersion gid confs stats =
     (case find_pfConfig confs gid of
        None \<Rightarrow> stats
      | Some pf \<Rightarrow> stats\<lparr>ConfigVersion := currentVersion pf\<rparr>)"
  by (induction confs rule: rev_induct)
    (auto simp: set_ConfigVersion_def find_pfConfig_snoc split: option.splits)

lemma find_pfConfig_map:
  assumes "\<And>c. gatewayID (f c) = gatewayID c"
  shows "find_pfConfig (map f confs) gid = map_option f (find_pfConfig confs gid)"
  by (induction confs rule: rev_induct) (simp_all add: find_pfConfig_snoc assms)

lemma find_pfConfig_set_currentVersion:
  "find_pfConfig (set_currentVersion gid v confs) gid' =
     map_option (\<lambda>c. if gatewayID c = gid then c\<lparr>currentVersion := v\<rparr> else c)
       (find_pfConfig confs gid')"
  unfolding set_currentVersion_def by (rule find_pfConfig_map) simp

lemma current_version_set_currentVersion:
  "current_version (set_currentVersion gid v confs) gid' =
     (if gid' = gid \<and> find_pfConfig confs gid \<noteq> None then v
      else current_version confs gid')"
proof (cases "find_pfConfig confs gid'")
  case None
  then show ?thesis
    by (auto simp: current_version_def find_pfConfig_set_currentVersion)
next
  case (Some pf)
  then have "gatewayID pf = gid'"
    by (rule find_pfConfig_gatewayID)
  with Some show ?thesis
    by (auto simp: current_version_def find_pfConfig_set_currentVersion)
qed

text \<open>The fields of a configuration that never change.\<close>

lemma steps_succeed_static:
  "steps_succeed e (pf\<lparr>currentVersion := v\<rparr>) config = steps_succeed e pf config"
  by (simp add: steps_succeed_def cong: sum.case_cong)

lemma ApplyConfiguration_eq:
  "snd (ApplyConfiguration e b config) =
     (if successful_apply (configurations b) (copy_EUI64 (cfg_GatewayId config))
           (Configuration e config)
      then b\<lparr>configurations :=
               set_currentVersion (copy_EUI64 (cfg_GatewayId config)) (Version config)
                 (configurations b)\<rparr>
      else b)"
  by (auto simp: ApplyConfiguration_def applyConfiguration_def steps_succeed_def
      dest: find_pfConfig_gatewayID split: option.splits sum.splits)

lemma ApplyConfiguration_succeeds_iff:
  "fst (ApplyConfiguration e b config) = None \<longleftrightarrow>
     successful_apply (configurations b) (copy_EUI64 (cfg_GatewayId config))
       (Configuration e config)"
  by (auto simp: ApplyConfiguration_def applyConfiguration_def steps_succeed_def
      split: option.splits sum.splits)


lemma static_fields_set_currentVersion [simp]:
  "static_fields (set_currentVersion gid v confs) = static_fields confs"
  by (simp add: static_fields_def set_currentVersion_def)

lemma find_pfConfig_static_fields:
  "find_pfConfig (static_fields confs) gid =
     map_option (\<lambda>c. c\<lparr>currentVersion := []\<rparr>) (find_pfConfig confs gid)"
  unfolding static_fields_def by (rule find_pfConfig_map) simp

lemma successful_apply_static:
  "successful_apply (static_fields confs) gid ev = successful_apply confs gid ev"
  by (cases ev)
    (auto simp: find_pfConfig_static_fields steps_succeed_static split: option.splits)

lemma successful_apply_cong_static:
  "static_fields confs = static_fields confs' \<Longrightarrow>
     successful_apply confs gid ev = successful_apply confs' gid ev"
  by (metis successful_apply_static)

lemma configurations_send [simp]: "configurations (send x b) = configurations b"
  by (simp add: send_def)

lemma configurations_handleUplinkFrames [simp]:
  "configurations (handleUplinkFrames s b fs) = configurations b"
  unfolding handleUplinkFrames_def by (induction fs arbitrary: b) simp_all

lemma configurations_handlePushData [simp]:
  "configurations (snd (handlePushData c s b up)) = configurations b"
  by (simp add: handlePushData_def handleStats_def Let_def split: sum.splits option.splits)

lemma configurations_handlePullData [simp]:
  "configurations (snd (handlePullData s b up)) = configurations b"
  by (simp add: handlePullData_def gateways_set_def Let_def split: sum.splits option.splits)

lemma configurations_handleTXACK [simp]:
  "configurations (snd (handleTXACK c b up)) = configurations b"
  by (simp add: handleTXACK_def split: sum.splits option.splits)

lemma configurations_handlePacket [simp]:
  "configurations (case handlePacket c s b up of None \<Rightarrow> b | Some r \<Rightarrow> snd r)
     = configurations b"
  by (simp add: handlePacket_def split: sum.splits)

lemma configurations_SendDownlinkFrame [simp]:
  "configurations (snd (SendDownlinkFrame c b frame)) = configurations b"
  by (simp add: SendDownlinkFrame_def split: sum.splits option.splits)

lemma static_fields_step:
  "static_fields (configurations (step c b ev)) = static_fields (configurations b)"
  by (cases ev) (simp_all add: ApplyConfiguration_eq)

lemma current_version_step:
  "current_version (configurations (step c b ev)) gid =
     (if successful_apply (configurations b) gid ev then applied_version ev
      else current_version (configurations b) gid)"
proof (cases ev)
  case (Configuration e config)
  then show ?thesis
    by (auto simp: ApplyConfiguration_eq current_version_set_currentVersion
        split: option.splits)
qed simp_all

lemma run_snoc: "run c b (evs @ [ev]) = step c (run c b evs) ev"
  by (simp add: run_def)

lemma run_Nil [simp]: "run c b [] = b"
  by (simp add: run_def)

lemma static_fields_run:
  "static_fields (configurations (run c b evs)) = static_fields (configurations b)"
  by (induction evs rule: rev_induct) (simp_all add: run_snoc static_fields_step)

lemma current_version_run:
  "current_version (configurations (run c b evs)) gid =
     (let ok = filter (successful_apply (configurations b) gid) evs
      in if ok = [] then current_version (configurations b) gid
         else applied_version (last ok))"
proof (induction evs rule: rev_induct)
  case Nil
  then show ?case by simp
next
  case (snoc ev evs)
  have "successful_apply (configurations (run c b evs)) gid ev
          = successful_apply (configurations b) gid ev"
    by (rule successful_apply_cong_static) (rule static_fields_run)
  with snoc show ?case
    by (simp add: run_snoc current_version_step Let_def)
qed

lemma current_version_NewBackend [simp]:
  "current_version (configurations (NewBackend fake skip confs)) gid = []"
proof -
  have "\<forall>c \<in> set cs. currentVersion c = [] \<Longrightarrow> current_version cs gid = []" for cs
    by (induction cs rule: rev_induct)
      (auto simp: current_version_def find_pfConfig_snoc split: option.splits)
  moreover have "\<forall>c \<in> set (configurations (NewBackend fake skip confs)). currentVersion c = []"
    by (auto simp: NewBackend_def)
  ultimately show ?thesis
    by blast
qed

lemma current_version_run_NewBackend:
  "current_version (configurations (run c (NewBackend fake skip confs) evs)) gid =
     most_recent_applied_version (configurations (NewBackend fake skip confs)) evs gid"
  by (simp add: current_version_run most_recent_applied_version_def Let_def)

lemma stats_sends_append [simp]: "stats_sends (xs @ ys) = stats_sends xs @ stats_sends ys"
  by (induction xs rule: stats_sends.induct) simp_all

lemma stats_sends_uplinks [simp]: "stats_sends (map UplinkFrameChan ups) = []"
  by (induction ups) simp_all

lemma set_gateway_ip_fields [simp]:
  "ConfigVersion (set_gateway_ip s up gs) = ConfigVersion gs"
  "MetaData (set_gateway_ip s up gs) = MetaData gs"
  "GatewayId (set_gateway_ip s up gs) = GatewayId gs"
  by (simp_all add: set_gateway_ip_def split: sum.splits)

lemma set_ConfigVersion_fields [simp]:
  "ConfigVersion (set_ConfigVersion gid confs gs) =
     (if find_pfConfig confs gid = None then ConfigVersion gs else current_version confs gid)"
  "MetaData (set_ConfigVersion gid confs gs) = MetaData gs"
  "GatewayId (set_ConfigVersion gid confs gs) = GatewayId gs"
  by (simp_all add: set_ConfigVersion_eq current_version_def split: option.splits)

lemma sent_handlePushData_stat:
  assumes "PushDataPacket_UnmarshalBinary c (data up) = Inr p"
    and "pl_Stat (Payload p) = Some st"
  shows "\<exists>gs0 ups.
           GetGatewayStats p = Inr (Some gs0)
         \<and> ConfigVersion gs0 = [] \<and> MetaData gs0 = Map.empty \<and> GatewayId gs0 = GatewayMAC p
         \<and> sent (snd (handlePushData c s b up)) =
             sent b
             @ [UdpSendChan \<lparr>addr = addr up,
                              data = [data up ! 0, data up ! 1, data up ! 2, PushACK]\<rparr>,
                GatewayStatsChan
                  (set_ConfigVersion (GatewayMAC p) (configurations b)
                     (set_gateway_ip s up gs0))]
             @ map UplinkFrameChan ups"
proof -
  obtain gs0 where gs0: "GetGatewayStats p = Inr (Some gs0)" "ConfigVersion gs0 = []"
      "MetaData gs0 = Map.empty" "GatewayId gs0 = GatewayMAC p"
    using assms(2) by (simp add: GetGatewayStats_def GatewayStats_zero_def)
  have hdr: "ProtocolVersion p = data up ! 0"
      "RandomToken p = token_of (data up ! 1) (data up ! 2)"
    using assms(1)
    by (auto simp: PushDataPacket_UnmarshalBinary_def split: if_splits sum.splits)
  let ?evs = "[UdpSendChan \<lparr>addr = addr up,
                              data = [data up ! 0, data up ! 1, data up ! 2, PushACK]\<rparr>,
                GatewayStatsChan
                  (set_ConfigVersion (GatewayMAC p) (configurations b)
                     (set_gateway_ip s up gs0))]"
  have "\<exists>ups. sent (snd (handlePushData c s b up)) = sent b @ ?evs @ map UplinkFrameChan ups"
  proof (cases "GetUplinkFrames c (skipCRCCheck b) (fakeRxTime b) p")
    case (Inl e)
    then have "sent (snd (handlePushData c s b up)) = sent b @ ?evs @ map UplinkFrameChan []"
      using assms(1) gs0(1)
      by (simp add: handlePushData_def PushACKPacket_MarshalBinary_def marshal_prefix_def
          Let_def hdr handleStats_def)
    then show ?thesis by blast
  next
    case (Inr fs)
    then have "sent (snd (handlePushData c s b up)) =
        sent b @ ?evs @ map UplinkFrameChan (map (\<lambda>f. f\<lparr>Carrier := carrier s\<rparr>) fs)"
      using assms(1) gs0(1)
      by (simp add: handlePushData_def PushACKPacket_MarshalBinary_def marshal_prefix_def
          Let_def hdr handleStats_def sent_handleUplinkFrames comp_def)
    then show ?thesis by blast
  qed
  with gs0 show ?thesis by blast
qed

lemma GatewayMAC_length:
  assumes "PushDataPacket_UnmarshalBinary c d = Inr p"
  shows "length (GatewayMAC p) = 8"
  using assms
  by (auto simp: PushDataPacket_UnmarshalBinary_def split: if_splits sum.splits)

lemma copy_EUI64_id: "length bs = 8 \<Longrightarrow> copy_EUI64 bs = bs"
  by (simp add: copy_EUI64_def)

text \<open>
  C5. Start from a new backend and let any packets, downlinks and configurations reach it.
  The \<open>GatewayStats\<close> that a \<open>PUSH_DATA\<close> packet then produces carries, as its
  \<open>ConfigVersion\<close>, the version of the most recent apply for the packet's gateway id in
  which every step succeeded, or the empty string when there was none. An apply that
  fails leaves the whole backend, and so every current version, as it was.
\<close>

theorem GatewayStats_ConfigVersion_most_recent_applied:
  assumes "PushDataPacket_UnmarshalBinary c (data up) = Inr p"
    and "pl_Stat (Payload p) = Some st"
  shows "map ConfigVersion
           (stats_sends (sent (snd (handlePushData c s
              (run c (NewBackend fake skip confs) evs) up))))
         = map ConfigVersion (stats_sends (sent (run c (NewBackend fake skip confs) evs)))
           @ [most_recent_applied_version
                (configurations (NewBackend fake skip confs)) evs (GatewayMAC p)]
       \<and> snd (ApplyConfiguration e b config) =
           (if fst (ApplyConfiguration e b config) = None
            then b\<lparr>configurations :=
                     set_currentVersion (copy_EUI64 (cfg_GatewayId config)) (Version config)
                       (configurations b)\<rparr>
            else b)"
proof -
  let ?b = "run c (NewBackend fake skip confs) evs"
  obtain gs0 ups where gs0: "ConfigVersion gs0 = []"
    and s: "sent (snd (handlePushData c s ?b up)) =
             sent ?b
             @ [UdpSendChan \<lparr>addr = addr up,
                              data = [data up ! 0, data up ! 1, data up ! 2, PushACK]\<rparr>,
                GatewayStatsChan
                  (set_ConfigVersion (GatewayMAC p) (configurations ?b)
                     (set_gateway_ip s up gs0))]
             @ map UplinkFrameChan ups"
    using sent_handlePushData_stat [OF assms, of s ?b] by blast
  have v: "ConfigVersion (set_ConfigVersion (GatewayMAC p) (configurations ?b)
                (set_gateway_ip s up gs0))
           = current_version (configurations ?b) (GatewayMAC p)"
    by (simp add: gs0 current_version_def)
  have "map ConfigVersion (stats_sends (sent (snd (handlePushData c s ?b up))))
         = map ConfigVersion (stats_sends (sent ?b))
           @ [current_version (configurations ?b) (GatewayMAC p)]"
    by (simp add: s v del: set_ConfigVersion_fields)
  moreover have "snd (ApplyConfiguration e b config) =
           (if fst (ApplyConfiguration e b config) = None
            then b\<lparr>configurations :=
                     set_currentVersion (copy_EUI64 (cfg_GatewayId config)) (Version config)
                       (configurations b)\<rparr>
            else b)"
    by (simp add: ApplyConfiguration_eq ApplyConfiguration_succeeds_iff)
  ultimately show ?thesis
    by (simp add: current_version_run_NewBackend)
qed

lemma example_push_decodes:
  "PushDataPacket_UnmarshalBinary example_codec (data example_push)
     = Inr \<lparr>ProtocolVersion = 2, RandomToken = 4660, GatewayMAC = example_mac,
            Payload = \<lparr>pl_RXPK = [example_rxpk], pl_Stat = Some example_stat\<rparr>\<rparr>"
  by (simp add: PushDataPacket_UnmarshalBinary_def PushData_def protocolSupported_def
      token_of_def example_mac_def example_codec_def example_push_def)

lemma example_find:
  "find_pfConfig (configurations (NewBackend False False example_confs)) example_mac
     = Some \<lparr>gatewayID = example_mac, baseFile = ''base.json'', outputFile = ''out.json'',
             restartCommand = ''restart'', currentVersion = []\<rparr>"
  by (simp add: NewBackend_def example_confs_def find_pfConfig_def)

lemma copy_example_mac: "copy_EUI64 example_mac = example_mac"
  by (simp add: copy_EUI64_def example_mac_def)

lemma example_config_fields:
  "cfg_GatewayId (example_config v) = example_mac" "Version (example_config v) = v"
  by (simp_all add: example_config_def)

lemma example_apply_succeeds:
  "successful_apply (configurations (NewBackend False False example_confs)) example_mac
     (Configuration example_apply_env (example_config v))"
  by (simp add: example_find steps_succeed_def example_apply_env_def example_config_fields
      copy_example_mac)

lemma example_apply_fails:
  "\<not> successful_apply (configurations (NewBackend False False example_confs)) example_mac
     (Configuration example_failing_env (example_config v))"
  by (simp add: example_find steps_succeed_def example_apply_env_def example_failing_env_def
      example_config_fields copy_example_mac)

theorem GatewayStats_ConfigVersion_most_recent_applied_witness:
  "map ConfigVersion
     (stats_sends (sent (snd (handlePushData example_codec example_sys
        (run example_codec (NewBackend False False example_confs)
           [Configuration example_apply_env (example_config ''v2''),
            Configuration example_failing_env (example_config ''v3'')])
        example_push))))
   = [''v2'']
   \<and> ApplyConfiguration example_failing_env (NewBackend False False example_confs)
        (example_config ''v3'')
     = (Some (Wrap (ErrorNew ''exit status 1'') ''invoke packet-forwarder restart error''),
        NewBackend False False example_confs)"
proof -
  have m: "most_recent_applied_version (configurations (NewBackend False False example_confs))
             [Configuration example_apply_env (example_config ''v2''),
              Configuration example_failing_env (example_config ''v3'')] example_mac
           = ''v2''"
    by (simp add: most_recent_applied_version_def example_apply_succeeds example_apply_fails
        example_config_fields del: successful_apply.simps)
  have r: "sent (run example_codec (NewBackend False False example_confs)
           [Configuration example_apply_env (example_config ''v2''),
            Configuration example_failing_env (example_config ''v3'')]) = []"
    by (simp add: run_def ApplyConfiguration_eq) (simp add: NewBackend_def)
  have f: "ApplyConfiguration example_failing_env (NewBackend False False example_confs)
        (example_config ''v3'')
     = (Some (Wrap (ErrorNew ''exit status 1'') ''invoke packet-forwarder restart error''),
        NewBackend False False example_confs)"
    using example_find
    by (simp add: ApplyConfiguration_def applyConfiguration_def example_config_fields
        copy_example_mac example_failing_env_def example_apply_env_def)
  show ?thesis
    using GatewayStats_ConfigVersion_most_recent_applied
      [OF example_push_decodes, of example_stat example_sys False False example_confs
        "[Configuration example_apply_env (example_config ''v2''),
          Configuration example_failing_env (example_config ''v3'')]"
        example_failing_env "NewBackend False False example_confs" "example_config ''v3''"]
    by (simp add: m r f)
qed

section \<open>Where the metadata is attached\<close>

lemma example_push_stats:
  "stats_sends (sent (snd (handlePushData example_codec example_sys
      (NewBackend False False []) example_push))) = [example_stats]"
proof -
  have d: "PushDataPacket_UnmarshalBinary example_codec
             [2, 18, 52, 0, 1, 2, 3, 4, 5, 6, 7, 8, 123, 34, 125]
     = Inr \<lparr>ProtocolVersion = 2, RandomToken = 4660, GatewayMAC = example_mac,
            Payload = \<lparr>pl_RXPK = [example_rxpk], pl_Stat = Some example_stat\<rparr>\<rparr>"
    using example_push_decodes by (simp add: example_push_def)
  show ?thesis
    by (simp add: handlePushData_def example_push_def d PushACKPacket_MarshalBinary_def
        marshal_prefix_def GetGatewayStats_def Let_def handleStats_def set_ConfigVersion_def
        sent_handleUplinkFrames)
      (simp_all add: example_codec_def example_sys_def example_addr_def set_gateway_ip_def
        NewBackend_def example_stat_def example_rxpk_def GatewayStats_zero_def
        example_stats_def send_def sent_handleUplinkFrames)
qed

text \<open>
  C8, as stated, fails: the statistics that \<open>handlePushData\<close> puts on the statistics
  channel carry no metadata, whatever the metadata snapshot holds. With one static entry
  \<open>region\<close>, the value on the channel has no \<open>region\<close> entry.
\<close>

theorem stats_on_channel_carry_no_metadata:
  "stats_sends (sent (snd (handlePushData example_codec example_sys
      (NewBackend False False []) example_push))) = [example_stats]
   \<and> MetaData example_stats ''region'' = None
   \<and> metadata_Get [''region'' \<mapsto> ''eu868''] Map.empty ''region'' = Some ''eu868''"
  by (simp add: example_push_stats example_stats_def GatewayStats_zero_def metadata_Get_def)

text \<open>
  C8, amended. The \<open>GatewayStats\<close> that a \<open>PUSH_DATA\<close> packet with a \<open>stat\<close> object puts
  on the statistics channel carries the gateway's current configuration version (empty
  when the gateway has no configuration) and no metadata. The metadata is attached after
  the channel, by the forwarder's statistics loop, which replaces the \<open>MetaData\<close> field
  by the snapshot of static and dynamic metadata and passes the result, with the gateway
  id and the event type \<open>stats\<close>, to \<open>PublishEvent\<close>.
\<close>

theorem stats_version_in_backend_metadata_in_forwarder:
  assumes "PushDataPacket_UnmarshalBinary c (data up) = Inr p"
    and "pl_Stat (Payload p) = Some st"
  shows "\<exists>gs. stats_sends (sent (snd (handlePushData c s b up))) = stats_sends (sent b) @ [gs]
           \<and> ConfigVersion gs = current_version (configurations b) (GatewayMAC p)
           \<and> MetaData gs = Map.empty
           \<and> forwardGatewayStats (metadata_Get static dynamic) gs
               = (GatewayMAC p, ''stats'', gs\<lparr>MetaData := static ++ dynamic\<rparr>)"
proof -
  obtain gs0 ups where gs0: "ConfigVersion gs0 = []" "MetaData gs0 = Map.empty"
      "GatewayId gs0 = GatewayMAC p"
    and s: "sent (snd (handlePushData c s b up)) =
             sent b
             @ [UdpSendChan \<lparr>addr = addr up,
                              data = [data up ! 0, data up ! 1, data up ! 2, PushACK]\<rparr>,
                GatewayStatsChan
                  (set_ConfigVersion (GatewayMAC p) (configurations b)
                     (set_gateway_ip s up gs0))]
             @ map UplinkFrameChan ups"
    using sent_handlePushData_stat [OF assms, of s b] by blast
  let ?gs = "set_ConfigVersion (GatewayMAC p) (configurations b) (set_gateway_ip s up gs0)"
  have "stats_sends (sent (snd (handlePushData c s b up))) = stats_sends (sent b) @ [?gs]"
    by (simp add: s)
  moreover have "ConfigVersion ?gs = current_version (configurations b) (GatewayMAC p)"
    by (simp add: gs0 current_version_def)
  moreover have "MetaData ?gs = Map.empty"
    by (simp add: gs0)
  moreover have "forwardGatewayStats (metadata_Get static dynamic) ?gs
               = (GatewayMAC p, ''stats'', ?gs\<lparr>MetaData := static ++ dynamic\<rparr>)"
    by (simp add: forwardGatewayStats_def metadata_Get_def gs0 copy_EUI64_id
        GatewayMAC_length [OF assms(1)] del: set_ConfigVersion_fields(1))
  ultimately show ?thesis
    by blast
qed

theorem stats_version_in_backend_metadata_in_forwarder_witness:
  "stats_sends (sent (snd (handlePushData example_codec example_sys
      (NewBackend False False []) example_push))) = [example_stats]
   \<and> ConfigVersion example_stats = []
   \<and> forwardGatewayStats (metadata_Get [''region'' \<mapsto> ''eu868''] Map.empty) example_stats
       = (example_mac, ''stats'', example_stats\<lparr>MetaData := [''region'' \<mapsto> ''eu868'']\<rparr>)"
  using stats_version_in_backend_metadata_in_forwarder
    [OF example_push_decodes, of example_stat example_sys "NewBackend False False []"
      "[''region'' \<mapsto> ''eu868'']" Map.empty]
  by (simp add: example_push_stats)

section \<open>Properties of the MQTT integration\<close>

lemma commandTopicTemplate_SubscribeGateway [simp]:
  "commandTopicTemplate (snd (SubscribeGateway br b gid)) = commandTopicTemplate b"
  by (simp add: SubscribeGateway_def split: option.splits)

lemma commandTopicTemplate_UnsubscribeGateway [simp]:
  "commandTopicTemplate (snd (UnsubscribeGateway br b gid)) = commandTopicTemplate b"
  by (simp add: UnsubscribeGateway_def split: option.splits sum.splits)

lemma commandTopicTemplate_mqtt_step [simp]:
  "commandTopicTemplate (mqtt_step b call) = commandTopicTemplate b"
  by (cases call) simp_all










lemma expected_subscriptions_Nil [simp]: "expected_subscriptions b [] = {}"
  by (simp add: expected_subscriptions_def)




text \<open>With a broker that accepts and topics that render, one unit of fuel is enough.\<close>

lemma onConnected_loop_returns:
  assumes "\<forall>gid \<in> set gids. \<exists>t. commandTopicTemplate b gid = Inr t"
    and "\<forall>n t. broker n t = None"
  shows "onConnected_loop (Suc fuel) broker b gids n = Some gids"
  using assms
  by (induction gids arbitrary: n) (auto simp: subscribeGateway_def split: option.splits)





section \<open>Dispatch of commands\<close>

lemma HasSuffix_iff: "HasSuffix s suffix \<longleftrightarrow> (\<exists>p. s = p @ suffix)"
proof
  assume "HasSuffix s suffix"
  then have "s = take (length s - length suffix) s @ suffix"
    by (metis HasSuffix_def append_take_drop_id)
  then show "\<exists>p. s = p @ suffix" ..
next
  assume "\<exists>p. s = p @ suffix"
  then show "HasSuffix s suffix"
    by (auto simp: HasSuffix_def)
qed

lemma take_eq_iff: "take (length sub) s = sub \<longleftrightarrow> (\<exists>q. s = sub @ q)"
  by (metis append_eq_conv_conj append_take_drop_id)

lemma Contains_iff: "Contains s substr \<longleftrightarrow> (\<exists>p q. s = p @ substr @ q)"
proof (induction s)
  case Nil
  then show ?case by auto
next
  case (Cons x xs)
  have "(\<exists>p q. x # xs = p @ substr @ q) \<longleftrightarrow>
          (\<exists>q. x # xs = substr @ q) \<or> (\<exists>p q. xs = p @ substr @ q)"
  proof
    assume "\<exists>p q. x # xs = p @ substr @ q"
    then obtain p q where e: "x # xs = p @ substr @ q" by blast
    show "(\<exists>q. x # xs = substr @ q) \<or> (\<exists>p q. xs = p @ substr @ q)"
    proof (cases p)
      case Nil
      with e show ?thesis by auto
    next
      case (Cons y p')
      with e have "xs = p' @ substr @ q" by simp
      then show ?thesis by blast
    qed
  next
    assume "(\<exists>q. x # xs = substr @ q) \<or> (\<exists>p q. xs = p @ substr @ q)"
    then show "\<exists>p q. x # xs = p @ substr @ q"
    proof
      assume "\<exists>q. x # xs = substr @ q"
      then obtain q where "x # xs = [] @ substr @ q" by auto
      then show ?thesis by blast
    next
      assume "\<exists>p q. xs = p @ substr @ q"
      then obtain p q where "x # xs = (x # p) @ substr @ q" by auto
      then show ?thesis by blast
    qed
  qed
  with Cons show ?case
    by (simp add: take_eq_iff del: take_Suc_Cons)
qed

lemma example_topics:
  "HasSuffix (topic example_down_msg) ''down''"
  "\<not> HasSuffix (topic example_config_msg) ''down''"
  "\<not> Contains (topic example_config_msg) ''command=down''"
  "HasSuffix (topic example_config_msg) ''config''"
  "\<not> HasSuffix (topic example_other_msg) ''down''"
  "\<not> Contains (topic example_other_msg) ''command=down''"
  "\<not> HasSuffix (topic example_other_msg) ''config''"
  "\<not> Contains (topic example_other_msg) ''command=config''"
  "HasSuffix (topic example_empty_down_msg) ''down''"
  "HasSuffix (topic example_overlap_msg) ''config''"
  "Contains (topic example_overlap_msg) ''command=down''"
  by (simp_all add: HasSuffix_def example_down_msg_def example_config_msg_def
      example_other_msg_def example_empty_down_msg_def example_overlap_msg_def)

text \<open>
  C7, as stated, fails in two ways. A message whose topic ends with \<open>config\<close> but also
  contains \<open>command=down\<close> is handled as a downlink frame and never reaches the
  configuration channel; and a message on a \<open>down\<close> topic whose payload does not
  unmarshal (here an empty payload) reaches no channel at all.
\<close>

theorem handleCommand_not_every_message_delivered:
  "HasSuffix (topic example_overlap_msg) ''config''
   \<and> gatewayConfigurationChan (handleCommand example_mqtt example_overlap_msg) = []
   \<and> downlinkFrameChan (handleCommand example_mqtt example_overlap_msg)
       = [\<lparr>PhyPayload = [10, 3], TxInfo = None, Token = 7\<rparr>]
   \<and> HasSuffix (topic example_empty_down_msg) ''down''
   \<and> downlinkFrameChan (handleCommand example_mqtt example_empty_down_msg) = []
   \<and> gatewayConfigurationChan (handleCommand example_mqtt example_empty_down_msg) = []"
  by (simp add: example_topics handleCommand_def handleDownlinkFrame_def)
    (simp add: example_mqtt_def mqtt_NewBackend_def example_unmarshal_down_def
      example_overlap_msg_def example_empty_down_msg_def)

text \<open>
  C7, amended. \<open>handleCommand\<close> looks at the topic. If it ends with \<open>down\<close> or contains
  \<open>command=down\<close>, the payload is unmarshaled as a \<open>DownlinkFrame\<close> and, when that
  succeeds, delivered to the downlink channel. Otherwise, if it ends with \<open>config\<close> or
  contains \<open>command=config\<close>, the payload is unmarshaled as a \<open>GatewayConfiguration\<close>
  and, when that succeeds, delivered to the configuration channel. A payload that does not
  unmarshal, and a message on any other topic, is dropped: the backend and both channels
  stay as they are.
\<close>

theorem handleCommand_dispatch:
  "handleCommand b msg =
     (if (\<exists>p. topic msg = p @ ''down'') \<or> (\<exists>p q. topic msg = p @ ''command=down'' @ q)
      then (case unmarshal_DownlinkFrame b (payload msg) of
              Inl e \<Rightarrow> b
            | Inr frame \<Rightarrow> b\<lparr>downlinkFrameChan := downlinkFrameChan b @ [frame]\<rparr>)
      else if (\<exists>p. topic msg = p @ ''config'')
              \<or> (\<exists>p q. topic msg = p @ ''command=config'' @ q)
      then (case unmarshal_GatewayConfiguration b (payload msg) of
              Inl e \<Rightarrow> b
            | Inr config \<Rightarrow>
                b\<lparr>gatewayConfigurationChan := gatewayConfigurationChan b @ [config]\<rparr>)
      else b)"
  unfolding handleCommand_def handleDownlinkFrame_def handleGatewayConfiguration_def
    HasSuffix_iff Contains_iff
  by (rule refl)

theorem handleCommand_dispatch_witness:
  "handleCommand example_mqtt example_down_msg
     = example_mqtt\<lparr>downlinkFrameChan := [\<lparr>PhyPayload = [10, 3], TxInfo = None, Token = 7\<rparr>]\<rparr>
   \<and> handleCommand example_mqtt example_config_msg
     = example_mqtt\<lparr>gatewayConfigurationChan :=
         [\<lparr>cfg_GatewayId = example_mac, Version = ''v2'', Channels = []\<rparr>]\<rparr>
   \<and> handleCommand example_mqtt example_other_msg = example_mqtt
   \<and> handleCommand example_mqtt example_empty_down_msg = example_mqtt"
proof -
  have t: "(\<exists>p. topic example_down_msg = p @ ''down'')"
    "\<not> ((\<exists>p. topic example_config_msg = p @ ''down'')
        \<or> (\<exists>p q. topic example_config_msg = p @ ''command=down'' @ q))"
    "(\<exists>p. topic example_config_msg = p @ ''config'')"
    "\<not> ((\<exists>p. topic example_other_msg = p @ ''down'')
        \<or> (\<exists>p q. topic example_other_msg = p @ ''command=down'' @ q))"
    "\<not> ((\<exists>p. topic example_other_msg = p @ ''config'')
        \<or> (\<exists>p q. topic example_other_msg = p @ ''command=config'' @ q))"
    "(\<exists>p. topic example_empty_down_msg = p @ ''down'')"
    using example_topics by (simp_all only: HasSuffix_iff Contains_iff simp_thms)
  have p: "payload example_down_msg = [10, 3]" "payload example_config_msg = [10, 8]"
    "payload example_empty_down_msg = []"
    by (simp_all add: example_down_msg_def example_config_msg_def example_empty_down_msg_def)
  have u: "unmarshal_DownlinkFrame example_mqtt = example_unmarshal_down"
    "unmarshal_GatewayConfiguration example_mqtt = example_unmarshal_config"
    "downlinkFrameChan example_mqtt = []" "gatewayConfigurationChan example_mqtt = []"
    by (simp_all add: example_mqtt_def mqtt_NewBackend_def)
  have h1: "handleCommand example_mqtt example_down_msg =
      (case unmarshal_DownlinkFrame example_mqtt (payload example_down_msg) of
         Inl e \<Rightarrow> example_mqtt
       | Inr frame \<Rightarrow>
           example_mqtt\<lparr>downlinkFrameChan := downlinkFrameChan example_mqtt @ [frame]\<rparr>)"
    by (subst handleCommand_dispatch) (simp only: t if_True if_False simp_thms)
  have h2: "handleCommand example_mqtt example_config_msg =
      (case unmarshal_GatewayConfiguration example_mqtt (payload example_config_msg) of
         Inl e \<Rightarrow> example_mqtt
       | Inr config \<Rightarrow>
           example_mqtt\<lparr>gatewayConfigurationChan :=
             gatewayConfigurationChan example_mqtt @ [config]\<rparr>)"
    by (subst handleCommand_dispatch) (simp only: t if_True if_False simp_thms)
  have h3: "handleCommand example_mqtt example_other_msg = example_mqtt"
    by (subst handleCommand_dispatch) (simp only: t if_True if_False simp_thms)
  have h4: "handleCommand example_mqtt example_empty_down_msg =
      (case unmarshal_DownlinkFrame example_mqtt (payload example_empty_down_msg) of
         Inl e \<Rightarrow> example_mqtt
       | Inr frame \<Rightarrow>
           example_mqtt\<lparr>downlinkFrameChan := downlinkFrameChan example_mqtt @ [frame]\<rparr>)"
    by (subst handleCommand_dispatch) (simp only: t if_True if_False simp_thms)
  show ?thesis
    by (simp add: h1 h2 h3 h4 p u example_unmarshal_down_def example_unmarshal_config_def)
qed

end
